theory Spec2Isabelle
  imports Complex_Main
begin

section \<open>JavaScript values used by the extensions\<close>

text \<open>
  Timestamps (\<^verbatim>\<open>Date.now()\<close>), cooldown seconds and HTTP status codes are JavaScript
  numbers holding integers far below \<open>2^53\<close>, so they are modelled as \<open>int\<close>.
  A property that may be \<^verbatim>\<open>undefined\<close> is an \<open>option\<close>. Strings are \<open>string\<close>;
  rank labels and command arguments are taken to be ASCII.
\<close>

text \<open>
  What reading a property of a configuration object gives: a number stored under the key,
  or, for a name the object inherits from \<^verbatim>\<open>Object.prototype\<close>, the inherited member (a
  function, or the prototype itself for \<^verbatim>\<open>__proto__\<close>). \<open>None\<close> is \<^verbatim>\<open>undefined\<close>.
\<close>

datatype property = Number int | InheritedMember

text \<open>The names every plain object inherits from \<^verbatim>\<open>Object.prototype\<close>.\<close>

definition Object_prototype :: "string list" where
  "Object_prototype =
     [''constructor'', ''__defineGetter__'', ''__defineSetter__'', ''hasOwnProperty'',
      ''__lookupGetter__'', ''__lookupSetter__'', ''isPrototypeOf'', ''propertyIsEnumerable'',
      ''toString'', ''valueOf'', ''__proto__'', ''toLocaleString'']"

text \<open>\<^verbatim>\<open>obj[key]\<close> on a plain object whose own properties are the numbers of \<open>obj\<close>.\<close>

definition property_of :: "(string \<rightharpoonup> int) \<Rightarrow> string \<Rightarrow> property option" where
  "property_of obj key =
     (case obj key of
        Some n \<Rightarrow> Some (Number n)
      | None \<Rightarrow> if key \<in> set Object_prototype then Some InheritedMember else None)"

text \<open>
  Truthiness of what was read: \<^verbatim>\<open>undefined\<close> and the number \<^verbatim>\<open>0\<close> are falsy, every
  other number and every inherited member is truthy.
\<close>

definition truthy :: "property option \<Rightarrow> bool" where
  "truthy v =
     (case v of
        None \<Rightarrow> False
      | Some (Number n) \<Rightarrow> n \<noteq> 0
      | Some InheritedMember \<Rightarrow> True)"

text \<open>\<^verbatim>\<open>Math.ceil(a / b)\<close> on integers \<open>a\<close> and a positive integer \<open>b\<close>.\<close>

definition Math_ceil_div :: "int \<Rightarrow> int \<Rightarrow> int" where
  "Math_ceil_div a b = - ((- a) div b)"

text \<open>\<^verbatim>\<open>String.prototype.toLowerCase\<close> on ASCII text.\<close>

definition toLowerCase_char :: "char \<Rightarrow> char" where
  "toLowerCase_char c =
     (case map_of (zip ''ABCDEFGHIJKLMNOPQRSTUVWXYZ'' ''abcdefghijklmnopqrstuvwxyz'') c of
        Some l \<Rightarrow> l
      | None \<Rightarrow> c)"

definition toLowerCase :: "string \<Rightarrow> string" where
  "toLowerCase s = map toLowerCase_char s"

text \<open>\<^verbatim>\<open>String.prototype.includes\<close>: the keyword occurs as a contiguous substring.\<close>

fun startsWith :: "string \<Rightarrow> string \<Rightarrow> bool" where
  "startsWith s [] = True"
| "startsWith [] (k # ks) = False"
| "startsWith (c # cs) (k # ks) = (c = k \<and> startsWith cs ks)"

fun str_includes :: "string \<Rightarrow> string \<Rightarrow> bool" where
  "str_includes [] kw = (kw = [])"
| "str_includes (c # cs) kw = (startsWith (c # cs) kw \<or> str_includes cs kw)"

text \<open>\<^verbatim>\<open>String.prototype.trim\<close> on ASCII text: space, tab, LF, VT, FF and CR are removed
  from both ends.\<close>

definition isWhitespace :: "char \<Rightarrow> bool" where
  "isWhitespace c = (c \<in> set [CHR '' '', CHR 0x09, CHR 0x0A, CHR 0x0B, CHR 0x0C, CHR 0x0D])"

definition trim :: "string \<Rightarrow> string" where
  "trim s = rev (dropWhile isWhitespace (rev (dropWhile isWhitespace s)))"


section \<open>CooldownPolicy: \<^verbatim>\<open>isOnCooldown\<close>\<close>

type_synonym RankCooldownTable = "string \<rightharpoonup> int"
type_synonym CooldownRecord = "string \<rightharpoonup> int"

text \<open>
  \<^verbatim>\<open>defaultConfig.guildRankCooldowns\<close> of the Hypixel stats extension and
  \<^verbatim>\<open>fallbackDefaults.guildRankCooldowns\<close> of the Fun Bot extension.
\<close>

definition defaultConfig_guildRankCooldowns :: RankCooldownTable where
  "defaultConfig_guildRankCooldowns =
     [''Guild Master'' \<mapsto> 0, ''Leader'' \<mapsto> 0, ''Moderator'' \<mapsto> 0, ''Elite'' \<mapsto> 30,
      ''Member'' \<mapsto> 45]"

definition fallbackDefaults_guildRankCooldowns :: RankCooldownTable where
  "fallbackDefaults_guildRankCooldowns =
     [''GM'' \<mapsto> 0, ''Leader'' \<mapsto> 10, ''SBMAIN'' \<mapsto> 12, ''Elite'' \<mapsto> 15, ''Mod'' \<mapsto> 20,
      ''Member'' \<mapsto> 60]"

text \<open>
  \<^verbatim>\<open>this.config.guildRankCooldowns || this.defaultConfig.guildRankCooldowns\<close>: a configured
  table is an object and therefore truthy; \<open>None\<close> is a missing (or null) setting.
\<close>

definition rankCooldowns_of :: "RankCooldownTable option \<Rightarrow> RankCooldownTable \<Rightarrow> RankCooldownTable" where
  "rankCooldowns_of configured dflt = (case configured of Some t \<Rightarrow> t | None \<Rightarrow> dflt)"

text \<open>
  The first half of \<^verbatim>\<open>isOnCooldown\<close> (hypixel-stats/index.ts lines 596-619, Fun Bot
  lines 384-407): the value of \<^verbatim>\<open>cooldownSeconds\<close> when the rank has been resolved.
  The two extensions differ only in the key read for the top tier
  (\<^verbatim>\<open>'Guild Master'\<close> and \<^verbatim>\<open>'GM'\<close>), which is the parameter \<open>topKey\<close>.
  The exact-match test is \<^verbatim>\<open>guildRank && rankCooldowns[guildRank]\<close>: it is a test of
  truthiness, of the label and of what the table yields for it. The table is a plain
  object: its own properties are numbers, and it yields the inherited members of
  \<^verbatim>\<open>Object.prototype\<close> for their names.
\<close>

definition keywordCooldownSeconds :: "string \<Rightarrow> RankCooldownTable \<Rightarrow> string \<Rightarrow> property option" where
  "keywordCooldownSeconds topKey rankCooldowns guildRank =
     (let lower = toLowerCase guildRank in
      if str_includes lower ''guild master'' \<or> str_includes lower ''guildmaster''
           \<or> str_includes lower ''gm''
        then property_of rankCooldowns topKey
      else if str_includes lower ''leader'' then property_of rankCooldowns ''Leader''
      else if str_includes lower ''moderator'' \<or> str_includes lower ''mod''
        then property_of rankCooldowns ''Moderator''
      else if str_includes lower ''elite'' then property_of rankCooldowns ''Elite''
      else if str_includes lower ''member'' then property_of rankCooldowns ''Member''
      else None)"

definition resolveCooldownSeconds :: "string \<Rightarrow> RankCooldownTable \<Rightarrow> string option \<Rightarrow> property option" where
  "resolveCooldownSeconds topKey rankCooldowns guildRank =
     (let cooldownSeconds =
        (case guildRank of
           None \<Rightarrow> None
         | Some r \<Rightarrow>
             if r \<noteq> [] \<and> truthy (property_of rankCooldowns r) then property_of rankCooldowns r
             else if r \<noteq> [] then keywordCooldownSeconds topKey rankCooldowns r
             else None)
      in case cooldownSeconds of
           None \<Rightarrow> property_of rankCooldowns ''Member''
         | Some c \<Rightarrow> Some c)"

text \<open>
  The second half (lines 621-632). \<open>None\<close> is \<^verbatim>\<open>null\<close>. When no cooldown is resolved
  (\<^verbatim>\<open>cooldownSeconds\<close> is still undefined), or an inherited member is, \<^verbatim>\<open>cooldownTime\<close>
  is NaN, every comparison with it is false, and the function returns \<^verbatim>\<open>null\<close>.
  \<^verbatim>\<open>lastRun && ...\<close> is again a test of truthiness.
\<close>

definition remainingFor :: "property option \<Rightarrow> CooldownRecord \<Rightarrow> string \<Rightarrow> int \<Rightarrow> int option" where
  "remainingFor cooldownSeconds cooldowns playerName now =
     (case cooldownSeconds of
        None \<Rightarrow> None
      | Some InheritedMember \<Rightarrow> None
      | Some (Number secs) \<Rightarrow>
          if secs = 0 then None
          else
            (let cooldownTime = secs * 1000;
                 lastRun = cooldowns playerName
             in case lastRun of
                  None \<Rightarrow> None
                | Some t \<Rightarrow>
                    if t \<noteq> 0 \<and> now - t < cooldownTime
                    then Some (Math_ceil_div (cooldownTime - (now - t)) 1000)
                    else None))"

definition isOnCooldownWith ::
  "string \<Rightarrow> RankCooldownTable \<Rightarrow> CooldownRecord \<Rightarrow> string \<Rightarrow> string option \<Rightarrow> int \<Rightarrow> int option" where
  "isOnCooldownWith topKey rankCooldowns cooldowns playerName guildRank now =
     remainingFor (resolveCooldownSeconds topKey rankCooldowns guildRank) cooldowns playerName now"

text \<open>\<^verbatim>\<open>HypixelStatsExtension.isOnCooldown\<close>.\<close>

definition isOnCooldown ::
  "RankCooldownTable option \<Rightarrow> CooldownRecord \<Rightarrow> string \<Rightarrow> string option \<Rightarrow> int \<Rightarrow> int option" where
  "isOnCooldown configured cooldowns playerName guildRank now =
     isOnCooldownWith ''Guild Master''
       (rankCooldowns_of configured defaultConfig_guildRankCooldowns)
       cooldowns playerName guildRank now"

text \<open>\<^verbatim>\<open>FunBotExtension.isOnCooldown\<close>.\<close>

definition FunBot_isOnCooldown ::
  "RankCooldownTable option \<Rightarrow> CooldownRecord \<Rightarrow> string \<Rightarrow> string option \<Rightarrow> int \<Rightarrow> int option" where
  "FunBot_isOnCooldown configured cooldowns playerName guildRank now =
     isOnCooldownWith ''GM''
       (rankCooldowns_of configured fallbackDefaults_guildRankCooldowns)
       cooldowns playerName guildRank now"

text \<open>\<^verbatim>\<open>setCooldown\<close>.\<close>

definition setCooldown :: "CooldownRecord \<Rightarrow> string \<Rightarrow> int \<Rightarrow> CooldownRecord" where
  "setCooldown cooldowns playerName now = cooldowns(playerName \<mapsto> now)"

text \<open>
  \<^verbatim>\<open>cleanupOldCooldowns\<close> of the Hypixel stats extension at time \<open>now\<close>, lines 654-662: the
  entries older than ten minutes are deleted.
\<close>

definition cleanupOldCooldowns :: "CooldownRecord \<Rightarrow> int \<Rightarrow> CooldownRecord" where
  "cleanupOldCooldowns cooldowns now =
     (let maxAge = 10 * 60 * 1000
      in (\<lambda>playerName.
            case cooldowns playerName of
              None \<Rightarrow> None
            | Some timestamp \<Rightarrow> if now - timestamp > maxAge then None else Some timestamp))"

text \<open>
  The cooldown map is private to the extension and starts empty. It is written in three
  places only: \<^verbatim>\<open>setCooldown(requester, Date.now())\<close> for an accepted request, the periodic
  \<^verbatim>\<open>cleanupOldCooldowns()\<close>, and \<^verbatim>\<open>cooldowns.clear()\<close> in \<^verbatim>\<open>destroy\<close>. Each event
  carries the reading of \<^verbatim>\<open>Date.now()\<close> it was made with; \<open>cooldowns_after\<close> is the map
  the events leave, oldest event first.
\<close>

datatype cooldown_event = Accepted string int | Cleanup int | Destroyed

fun cooldown_step :: "CooldownRecord \<Rightarrow> cooldown_event \<Rightarrow> CooldownRecord" where
  "cooldown_step cooldowns (Accepted requester now) = setCooldown cooldowns requester now"
| "cooldown_step cooldowns (Cleanup now) = cleanupOldCooldowns cooldowns now"
| "cooldown_step cooldowns Destroyed = Map.empty"

definition cooldowns_after :: "cooldown_event list \<Rightarrow> CooldownRecord" where
  "cooldowns_after events = foldl cooldown_step Map.empty events"

text \<open>
  \<^verbatim>\<open>Date.now()\<close> is the number of milliseconds since the beginning of 1970: every reading
  is positive.
\<close>

fun reading_positive :: "cooldown_event \<Rightarrow> bool" where
  "reading_positive (Accepted requester now) = (0 < now)"
| "reading_positive (Cleanup now) = (0 < now)"
| "reading_positive Destroyed = True"


text \<open>
  The callers' test \<^verbatim>\<open>cooldownRemaining !== null && cooldownRemaining > 0\<close>: the seconds
  to report when it holds, \<open>None\<close> when it does not.
\<close>

definition rejecting :: "int option \<Rightarrow> int option" where
  "rejecting cooldownRemaining =
     (case cooldownRemaining of
        None \<Rightarrow> None
      | Some n \<Rightarrow> if n > 0 then Some n else None)"

text \<open>
  The keywords that the chain of \<^verbatim>\<open>includes\<close> tests of \<^verbatim>\<open>isOnCooldown\<close> looks for in the
  lower-cased label, in the order of the source.
\<close>

definition rankKeywords :: "string list" where
  "rankKeywords =
     [''guild master'', ''guildmaster'', ''gm'', ''leader'', ''moderator'', ''mod'', ''elite'',
      ''member'']"


section \<open>LookupCache: \<^verbatim>\<open>getCachedData\<close> and \<^verbatim>\<open>setCachedData\<close>\<close>

record 'd CacheEntry =
  data :: 'd
  timestamp :: int
  expiresAt :: int

type_synonym 'd LookupCache = "string \<rightharpoonup> 'd CacheEntry"

text \<open>
  \<^verbatim>\<open>getCachedData(key)\<close> at time \<open>now\<close>: the value returned (\<open>None\<close> is \<^verbatim>\<open>null\<close>) and
  the cache after the read.
\<close>

definition getCachedData :: "'d LookupCache \<Rightarrow> string \<Rightarrow> int \<Rightarrow> 'd option \<times> 'd LookupCache" where
  "getCachedData cache key now =
     (case cache key of
        None \<Rightarrow> (None, cache)
      | Some entry \<Rightarrow>
          if now \<ge> expiresAt entry then (None, cache(key := None))
          else (Some (data entry), cache))"

text \<open>\<^verbatim>\<open>setCachedData(key, data)\<close> at time \<open>now\<close> with \<^verbatim>\<open>config.cacheExpiryTime\<close>.\<close>

definition setCachedData :: "int \<Rightarrow> 'd LookupCache \<Rightarrow> string \<Rightarrow> 'd \<Rightarrow> int \<Rightarrow> 'd LookupCache" where
  "setCachedData cacheExpiryTime cache key d now =
     cache(key \<mapsto> \<lparr>data = d, timestamp = now, expiresAt = now + cacheExpiryTime\<rparr>)"

text \<open>\<^verbatim>\<open>defaultConfig.cacheExpiryTime\<close>: 15 minutes, in milliseconds.\<close>

definition defaultConfig_cacheExpiryTime :: int where
  "defaultConfig_cacheExpiryTime = 15 * 60 * 1000"

text \<open>\<^verbatim>\<open>generateCacheKey(type, identifier, extra?)\<close>.\<close>

definition generateCacheKey :: "string \<Rightarrow> string \<Rightarrow> string option \<Rightarrow> string" where
  "generateCacheKey type identifier extra =
     (let baseKey = type @ '':'' @ toLowerCase identifier in
      case extra of
        None \<Rightarrow> baseKey
      | Some e \<Rightarrow> if e \<noteq> [] then baseKey @ '':'' @ e else baseKey)"


section \<open>Chat lines, responses and external calls\<close>

text \<open>
  The part of \<^verbatim>\<open>ChatMessageContext\<close> the handlers read; \<open>matches1\<close> is
  \<^verbatim>\<open>context.matches?.[1]\<close>, the first capture group of the command pattern.
\<close>

record ChatMessageContext =
  username :: string
  guildRank :: "string option"
  channel :: "string option"
  matches1 :: "string option"

text \<open>
  The chat texts the handlers send, one constructor for each template of the source;
  the random colour suffix of a template is left out.
\<close>

datatype UrchinTag = Tag (tagType: "string option") (reason: "string option")

datatype chat_text =
    CooldownNotice string int
  | PlayerNotFound string string
  | RateLimited string
  | ServerError string
  | UnableToFetch string string
  | StatsMessage string
  | StatsFailed string string string
  | ViewCooldownNotice string int
  | NotValidUsername string
  | LookupFailed string
  | NoTags string
  | AuthFailed
  | RateLimitExceeded
  | TagLine string UrchinTag
  | CheckFailed string
  | UnexpectedError
  | Reply string

datatype chat_call =
    sendGuildChat chat_text
  | sendPrivateMessage string chat_text
  | sendPartyMessage chat_text

text \<open>The external lookups a handler starts.\<close>

datatype api_call =
    fetchMojangProfile string
  | fetchHypixelPlayerProfile string string
  | fetch_mojang_uuid string
  | fetch_urchin_player string string

text \<open>
  The state of an extension object together with the log of what it has sent and
  fetched: \<open>cooldowns\<close>, \<open>processingRequests\<close> and \<open>cache\<close> are the fields of the class,
  \<open>sent\<close> collects the calls to \<^verbatim>\<open>api.chat\<close> and \<open>calls\<close> the external lookups, oldest first.
  Logging through \<^verbatim>\<open>api.log\<close> and the chat collaborator are taken not to throw.
\<close>

record Bot =
  cooldowns :: CooldownRecord
  sent :: "chat_call list"

record Guarded = Bot +
  processingRequests :: "string set"
  calls :: "api_call list"

datatype 'p payload = MojangProfile string | PlayerData 'p

record 'p Hypixel = Guarded +
  cache :: "'p payload LookupCache"

record Config =
  enabled :: bool

record RankedConfig = Config +
  guildRankCooldowns :: "RankCooldownTable option"

record HypixelConfig = RankedConfig +
  hypixelApiKey :: string
  cacheExpiryTime :: int

record UrchinConfig = Config +
  urchinApiKey :: string
  cooldownTime :: int

text \<open>
  What the outside world does during one run of a handler. The readings of
  \<^verbatim>\<open>Date.now()\<close> are parameters, one for each call of the source.
\<close>

record HandlerEnv =
  nowCooldownCheck :: int
  nowSetCooldown :: int

text \<open>
  \<^verbatim>\<open>fetchMojangProfile\<close>, \<^verbatim>\<open>fetchHypixelPlayerProfile\<close> and \<^verbatim>\<open>isFetchError\<close> come from
  \<^verbatim>\<open>./utils\<close>, which is not among the sources; what a fetch produced is a parameter:
  the promise resolved with data, resolved with a fetch error (the case \<^verbatim>\<open>isFetchError\<close>
  recognises, with its status), or was rejected.
\<close>

datatype 'a fetch_outcome = Resolved 'a | ResolvedError int | Rejected

record 'p StatsEnv = HandlerEnv +
  nowMojangGet :: int
  mojangFetched :: "string fetch_outcome"
  nowMojangSet :: int
  nowPlayerGet :: int
  playerFetched :: "'p fetch_outcome"
  nowPlayerSet :: int

text \<open>
  A \<^verbatim>\<open>fetch\<close> of the Urchin extension: the request failed, or a response arrived with a
  status and a body; the body is \<open>None\<close> when \<^verbatim>\<open>response.json()\<close> rejects.
  \<^verbatim>\<open>response.ok\<close> is the status lying in 200..299.
\<close>

datatype 'b response = Response int "'b option" | NetworkError

definition ok :: "int \<Rightarrow> bool" where
  "ok status = (200 \<le> status \<and> status \<le> 299)"

text \<open>
  The Mojang body yields \<^verbatim>\<open>uuidData.id\<close>; the Urchin body yields \<^verbatim>\<open>urchinData.tags\<close>,
  \<open>None\<close> when the data or its tags are missing.
\<close>

record UrchinEnv = HandlerEnv +
  uuidResponse :: "string response"
  urchinResponse :: "UrchinTag list option response"

text \<open>
  The handler object of a game mode: its \<^verbatim>\<open>gameMode\<close> and its
  \<^verbatim>\<open>buildStatsMessage\<close>, which receives the target and fields of the player data and
  returns the message, or throws (\<open>None\<close>).
\<close>

record 'p GameHandler =
  gameMode :: string
  buildStatsMessage :: "string \<Rightarrow> 'p payload \<Rightarrow> string option"

text \<open>How a block of statements ends: it runs to its end, returns, or throws.\<close>

datatype ('a, 'w) step = Next 'a 'w | Return 'w | Throw 'w

text \<open>\<^verbatim>\<open>context.matches?.[1]?.trim() || requester\<close>.\<close>

definition target_of :: "ChatMessageContext \<Rightarrow> string" where
  "target_of ctx =
     (case matches1 ctx of
        None \<Rightarrow> username ctx
      | Some m \<Rightarrow> if trim m \<noteq> [] then trim m else username ctx)"


section \<open>Hypixel stats: \<^verbatim>\<open>createStatsHandler\<close>\<close>

text \<open>\<^verbatim>\<open>handleFetchError\<close>: the text sent for a fetch error of the given status.\<close>

definition handleFetchError :: "int \<Rightarrow> string \<Rightarrow> string \<Rightarrow> chat_text" where
  "handleFetchError status requester target =
     (if status = 404 then PlayerNotFound requester target
      else if status = 429 then RateLimited requester
      else if status \<ge> 500 then ServerError requester
      else UnableToFetch requester target)"

definition stats_requestKey :: "'p GameHandler \<Rightarrow> ChatMessageContext \<Rightarrow> string" where
  "stats_requestKey gameHandler ctx =
     username ctx @ ''-'' @ target_of ctx @ ''-'' @ gameMode gameHandler"

text \<open>Lines 448-461: the Mojang profile, from the cache or fetched.\<close>

definition stats_mojangProfile ::
  "HypixelConfig \<Rightarrow> 'p StatsEnv \<Rightarrow> string \<Rightarrow> string \<Rightarrow> string \<Rightarrow> 'p Hypixel
     \<Rightarrow> ('p payload, 'p Hypixel) step" where
  "stats_mojangProfile cfg env requester target requestKey w =
     (let mojangCacheKey = generateCacheKey ''mojang'' target None;
          (cached, cache1) = getCachedData (cache w) mojangCacheKey (nowMojangGet env);
          w1 = w\<lparr>cache := cache1\<rparr>
      in case cached of
           Some mojangProfile \<Rightarrow> Next mojangProfile w1
         | None \<Rightarrow>
             (let w2 = w1\<lparr>calls := calls w1 @ [fetchMojangProfile target]\<rparr>
              in case mojangFetched env of
                   Rejected \<Rightarrow> Throw w2
                 | ResolvedError status \<Rightarrow>
                     Return (w2\<lparr>sent := sent w2 @ [sendGuildChat (handleFetchError status requester target)],
                                 processingRequests := processingRequests w2 - {requestKey}\<rparr>)
                 | Resolved uuid \<Rightarrow>
                     Next (MojangProfile uuid)
                       (w2\<lparr>cache := setCachedData (cacheExpiryTime cfg) (cache w2) mojangCacheKey
                                       (MojangProfile uuid) (nowMojangSet env)\<rparr>)))"

text \<open>
  Lines 463-476: the player data, from the cache or fetched. \<^verbatim>\<open>mojangProfile.id\<close> is
  undefined for an object that is not a Mojang profile, and \<^verbatim>\<open>generateCacheKey\<close> then
  throws on \<^verbatim>\<open>identifier.toLowerCase()\<close>.
\<close>

definition stats_playerData ::
  "HypixelConfig \<Rightarrow> 'p StatsEnv \<Rightarrow> string \<Rightarrow> string \<Rightarrow> string \<Rightarrow> 'p payload \<Rightarrow> 'p Hypixel
     \<Rightarrow> ('p payload, 'p Hypixel) step" where
  "stats_playerData cfg env requester target requestKey mojangProfile w =
     (case mojangProfile of
        PlayerData other \<Rightarrow> Throw w
      | MojangProfile uuid \<Rightarrow>
          (let playerCacheKey = generateCacheKey ''player'' uuid None;
               (cached, cache1) = getCachedData (cache w) playerCacheKey (nowPlayerGet env);
               w1 = w\<lparr>cache := cache1\<rparr>
           in case cached of
                Some playerData \<Rightarrow> Next playerData w1
              | None \<Rightarrow>
                  (let w2 = w1\<lparr>calls := calls w1 @ [fetchHypixelPlayerProfile uuid (hypixelApiKey cfg)]\<rparr>
                   in case playerFetched env of
                        Rejected \<Rightarrow> Throw w2
                      | ResolvedError status \<Rightarrow>
                          Return (w2\<lparr>sent := sent w2 @ [sendGuildChat (handleFetchError status requester target)],
                                      processingRequests := processingRequests w2 - {requestKey}\<rparr>)
                      | Resolved pd \<Rightarrow>
                          Next (PlayerData pd)
                            (w2\<lparr>cache := setCachedData (cacheExpiryTime cfg) (cache w2) playerCacheKey
                                            (PlayerData pd) (nowPlayerSet env)\<rparr>))))"

text \<open>The body of the \<^verbatim>\<open>try\<close> block, lines 447-486.\<close>

definition stats_try ::
  "'p GameHandler \<Rightarrow> HypixelConfig \<Rightarrow> 'p StatsEnv \<Rightarrow> string \<Rightarrow> string \<Rightarrow> string \<Rightarrow> 'p Hypixel
     \<Rightarrow> (unit, 'p Hypixel) step" where
  "stats_try gameHandler cfg env requester target requestKey w =
     (case stats_mojangProfile cfg env requester target requestKey w of
        Throw w1 \<Rightarrow> Throw w1
      | Return w1 \<Rightarrow> Return w1
      | Next mojangProfile w1 \<Rightarrow>
          (case stats_playerData cfg env requester target requestKey mojangProfile w1 of
             Throw w2 \<Rightarrow> Throw w2
           | Return w2 \<Rightarrow> Return w2
           | Next playerData w2 \<Rightarrow>
               (case buildStatsMessage gameHandler target playerData of
                  None \<Rightarrow> Throw w2
                | Some statsMessage \<Rightarrow>
                    Next () (w2\<lparr>sent := sent w2 @ [sendGuildChat (StatsMessage statsMessage)]\<rparr>))))"

text \<open>
  \<^verbatim>\<open>try { ... } catch { ... } finally { ... }\<close>, lines 447-495: the \<^verbatim>\<open>catch\<close> block
  sends the error text, the \<^verbatim>\<open>finally\<close> block deletes the request key on every path.
\<close>

definition stats_run ::
  "'p GameHandler \<Rightarrow> HypixelConfig \<Rightarrow> 'p StatsEnv \<Rightarrow> string \<Rightarrow> string \<Rightarrow> string \<Rightarrow> 'p Hypixel
     \<Rightarrow> 'p Hypixel" where
  "stats_run gameHandler cfg env requester target requestKey w =
     (let w1 =
        (case stats_try gameHandler cfg env requester target requestKey w of
           Next u w' \<Rightarrow> w'
         | Return w' \<Rightarrow> w'
         | Throw w' \<Rightarrow>
             w'\<lparr>sent := sent w' @ [sendGuildChat (StatsFailed requester (gameMode gameHandler) target)]\<rparr>)
      in w1\<lparr>processingRequests := processingRequests w1 - {requestKey}\<rparr>)"

text \<open>
  The synchronous start of the handler, lines 421-443: the request is dropped (the
  handler returns, with the state it leaves) or admitted (the handler goes on to the
  \<^verbatim>\<open>try\<close> block).
\<close>

datatype 'w admission = Dropped 'w | Admitted 'w

definition stats_begin ::
  "'p GameHandler \<Rightarrow> HypixelConfig \<Rightarrow> 'p StatsEnv \<Rightarrow> ChatMessageContext \<Rightarrow> 'p Hypixel
     \<Rightarrow> 'p Hypixel admission" where
  "stats_begin gameHandler cfg env ctx w =
     (if \<not> enabled cfg then Dropped w
      else
        (let requester = username ctx;
             requestKey = stats_requestKey gameHandler ctx
         in if requestKey \<in> processingRequests w then Dropped w
            else
              (case rejecting (isOnCooldown (guildRankCooldowns cfg) (cooldowns w) requester
                                 (guildRank ctx) (nowCooldownCheck env)) of
                 Some cooldownRemaining \<Rightarrow>
                   Dropped (w\<lparr>sent := sent w @ [sendGuildChat (CooldownNotice requester cooldownRemaining)]\<rparr>)
               | None \<Rightarrow>
                   Admitted (w\<lparr>cooldowns := setCooldown (cooldowns w) requester (nowSetCooldown env),
                                processingRequests := insert requestKey (processingRequests w)\<rparr>))))"

text \<open>
  The handler returned by \<^verbatim>\<open>createStatsHandler(gameHandler)\<close>, run to completion. The
  start and the rest are separate functions, so that statements about the rest hold for
  whatever state other handlers have left when this one resumes after an \<^verbatim>\<open>await\<close>.
\<close>

definition createStatsHandler ::
  "'p GameHandler \<Rightarrow> HypixelConfig \<Rightarrow> 'p StatsEnv \<Rightarrow> ChatMessageContext \<Rightarrow> 'p Hypixel
     \<Rightarrow> 'p Hypixel" where
  "createStatsHandler gameHandler cfg env ctx w =
     (case stats_begin gameHandler cfg env ctx w of
        Dropped w' \<Rightarrow> w'
      | Admitted w1 \<Rightarrow>
          stats_run gameHandler cfg env (username ctx) (target_of ctx)
            (stats_requestKey gameHandler ctx) w1)"


section \<open>Urchin blacklist: \<^verbatim>\<open>handleViewCommand\<close>\<close>

text \<open>\<^verbatim>\<open>UrchinBlacklistExtension.isOnCooldown\<close>: the seconds left, \<open>0\<close> when there are none.\<close>

definition Urchin_isOnCooldown :: "int \<Rightarrow> CooldownRecord \<Rightarrow> string \<Rightarrow> int \<Rightarrow> int" where
  "Urchin_isOnCooldown cooldownTime' cds playerName now =
     (case cds playerName of
        None \<Rightarrow> 0
      | Some lastRequest \<Rightarrow>
          if lastRequest \<noteq> 0 then
            (let timeDiff = now - lastRequest
             in if timeDiff < cooldownTime'
                then Math_ceil_div (cooldownTime' - timeDiff) 1000
                else 0)
          else 0)"

definition view_requestKey :: "ChatMessageContext \<Rightarrow> string" where
  "view_requestKey ctx = username ctx @ ''-'' @ target_of ctx @ ''-view''"

text \<open>
  Step 1, lines 119-143: the inner \<^verbatim>\<open>try\<close> around the Mojang lookup. A status that is
  not ok and a body that cannot be read throw into the inner \<^verbatim>\<open>catch\<close>, which sends
  its text and returns.
\<close>

definition view_uuid :: "UrchinEnv \<Rightarrow> string \<Rightarrow> Guarded \<Rightarrow> (string, Guarded) step" where
  "view_uuid env target w =
     (let w1 = w\<lparr>calls := calls w @ [fetch_mojang_uuid target]\<rparr>;
          caught = Return (w1\<lparr>sent := sent w1 @ [sendGuildChat (LookupFailed target)]\<rparr>)
      in case uuidResponse env of
           NetworkError \<Rightarrow> caught
         | Response status body \<Rightarrow>
             if status = 204 \<or> status = 404
             then Return (w1\<lparr>sent := sent w1 @ [sendGuildChat (NotValidUsername target)]\<rparr>)
             else if \<not> ok status then caught
             else (case body of
                     None \<Rightarrow> caught
                   | Some uuid \<Rightarrow> Next uuid w1))"

text \<open>
  Steps 2 and 3, lines 145-196: the inner \<^verbatim>\<open>try\<close> around the Urchin query. Its
  \<^verbatim>\<open>catch\<close> sends its text and falls through to the end of the outer block.
\<close>

definition view_tags :: "UrchinConfig \<Rightarrow> UrchinEnv \<Rightarrow> string \<Rightarrow> string \<Rightarrow> Guarded \<Rightarrow> (unit, Guarded) step" where
  "view_tags cfg env target uuid w =
     (let w1 = w\<lparr>calls := calls w @ [fetch_urchin_player uuid (urchinApiKey cfg)]\<rparr>;
          caught = Next () (w1\<lparr>sent := sent w1 @ [sendGuildChat (CheckFailed target)]\<rparr>)
      in case urchinResponse env of
           NetworkError \<Rightarrow> caught
         | Response status body \<Rightarrow>
             if status = 404
             then Return (w1\<lparr>sent := sent w1 @ [sendGuildChat (NoTags target)]\<rparr>)
             else if status = 401
             then Return (w1\<lparr>sent := sent w1 @ [sendGuildChat AuthFailed]\<rparr>)
             else if status = 429
             then Return (w1\<lparr>sent := sent w1 @ [sendGuildChat RateLimitExceeded]\<rparr>)
             else if \<not> ok status then caught
             else (case body of
                     None \<Rightarrow> caught
                   | Some urchinData \<Rightarrow>
                       (case urchinData of
                          None \<Rightarrow> Return (w1\<lparr>sent := sent w1 @ [sendGuildChat (NoTags target)]\<rparr>)
                        | Some tags \<Rightarrow>
                            if tags = []
                            then Return (w1\<lparr>sent := sent w1 @ [sendGuildChat (NoTags target)]\<rparr>)
                            else Next ()
                              (w1\<lparr>sent := sent w1 @ map (\<lambda>tag. sendGuildChat (TagLine target tag)) tags\<rparr>))))"

text \<open>The body of the outer \<^verbatim>\<open>try\<close> block, lines 117-196.\<close>

definition view_try :: "UrchinConfig \<Rightarrow> UrchinEnv \<Rightarrow> string \<Rightarrow> Guarded \<Rightarrow> (unit, Guarded) step" where
  "view_try cfg env target w =
     (case view_uuid env target w of
        Throw w1 \<Rightarrow> Throw w1
      | Return w1 \<Rightarrow> Return w1
      | Next uuid w1 \<Rightarrow> view_tags cfg env target uuid w1)"

text \<open>
  The outer \<^verbatim>\<open>try { ... } catch { ... } finally { ... }\<close>, lines 117-204: the \<^verbatim>\<open>finally\<close>
  block deletes the request key on every path.
\<close>

definition view_run :: "UrchinConfig \<Rightarrow> UrchinEnv \<Rightarrow> string \<Rightarrow> string \<Rightarrow> Guarded \<Rightarrow> Guarded" where
  "view_run cfg env target requestKey w =
     (let w1 =
        (case view_try cfg env target w of
           Next u w' \<Rightarrow> w'
         | Return w' \<Rightarrow> w'
         | Throw w' \<Rightarrow> w'\<lparr>sent := sent w' @ [sendGuildChat UnexpectedError]\<rparr>)
      in w1\<lparr>processingRequests := processingRequests w1 - {requestKey}\<rparr>)"

text \<open>The synchronous start, lines 91-113.\<close>

definition view_begin :: "UrchinConfig \<Rightarrow> UrchinEnv \<Rightarrow> ChatMessageContext \<Rightarrow> Guarded \<Rightarrow> Guarded admission" where
  "view_begin cfg env ctx w =
     (if \<not> enabled cfg then Dropped w
      else
        (let requester = username ctx;
             requestKey = view_requestKey ctx
         in if requestKey \<in> processingRequests w then Dropped w
            else
              (let cooldownRemaining =
                     Urchin_isOnCooldown (cooldownTime cfg) (cooldowns w) requester (nowCooldownCheck env)
               in if cooldownRemaining > 0
                  then Dropped (w\<lparr>sent := sent w @ [sendGuildChat (ViewCooldownNotice requester cooldownRemaining)]\<rparr>)
                  else Admitted (w\<lparr>cooldowns := setCooldown (cooldowns w) requester (nowSetCooldown env),
                                    processingRequests := insert requestKey (processingRequests w)\<rparr>))))"

text \<open>\<^verbatim>\<open>handleViewCommand\<close>, run to completion.\<close>

definition handleViewCommand :: "UrchinConfig \<Rightarrow> UrchinEnv \<Rightarrow> ChatMessageContext \<Rightarrow> Guarded \<Rightarrow> Guarded" where
  "handleViewCommand cfg env ctx w =
     (case view_begin cfg env ctx w of
        Dropped w' \<Rightarrow> w'
      | Admitted w1 \<Rightarrow> view_run cfg env (target_of ctx) (view_requestKey ctx) w1)"

text \<open>
  The tags a run of \<^verbatim>\<open>handleViewCommand\<close> lists: both lookups answered with an ok status and
  a readable body, and the list of tags is not empty. Every other run of an admitted
  request is a failure or a report that there is nothing to list.
\<close>

definition view_listed_tags :: "UrchinEnv \<Rightarrow> UrchinTag list option" where
  "view_listed_tags env =
     (case uuidResponse env of
        NetworkError \<Rightarrow> None
      | Response s1 b1 \<Rightarrow>
          if s1 = 204 \<or> s1 = 404 \<or> \<not> ok s1 \<or> b1 = None then None
          else (case urchinResponse env of
                  NetworkError \<Rightarrow> None
                | Response s2 b2 \<Rightarrow>
                    if s2 = 404 \<or> s2 = 401 \<or> s2 = 429 \<or> \<not> ok s2 then None
                    else (case b2 of
                            Some (Some tags) \<Rightarrow> if tags = [] then None else Some tags
                          | _ \<Rightarrow> None)))"


section \<open>Fun Bot: \<^verbatim>\<open>sendResponse\<close>\<close>

text \<open>
  \<^verbatim>\<open>sendResponse(context, message, api)\<close>, lines 457-484, with one reading of
  \<^verbatim>\<open>Date.now()\<close>. A request on cooldown is ignored without a reply; a channel other
  than Guild, Officer, From and Party gets no reply either.
\<close>

definition FunBot_route :: "ChatMessageContext \<Rightarrow> string \<Rightarrow> Bot \<Rightarrow> Bot" where
  "FunBot_route ctx message w =
     (if channel ctx = Some ''Guild'' \<or> channel ctx = Some ''Officer''
      then w\<lparr>sent := sent w @ [sendGuildChat (Reply message)]\<rparr>
      else if channel ctx = Some ''From''
      then w\<lparr>sent := sent w @ [sendPrivateMessage (username ctx) (Reply message)]\<rparr>
      else if channel ctx = Some ''Party''
      then w\<lparr>sent := sent w @ [sendPartyMessage (Reply message)]\<rparr>
      else w)"

definition sendResponse :: "RankedConfig \<Rightarrow> int \<Rightarrow> ChatMessageContext \<Rightarrow> string \<Rightarrow> Bot \<Rightarrow> Bot" where
  "sendResponse cfg now ctx message w =
     (if \<not> enabled cfg then w
      else if rejecting (FunBot_isOnCooldown (guildRankCooldowns cfg) (cooldowns w) (username ctx)
                           (guildRank ctx) now) \<noteq> None
      then w
      else FunBot_route ctx message
             (w\<lparr>cooldowns := setCooldown (cooldowns w) (username ctx) now\<rparr>))"


section \<open>Online players: \<^verbatim>\<open>OnlinePlayersTracker.updateOnlinePlayers\<close>\<close>

record OnlinePlayersData =
  players :: "(string \<times> string list) list"
  onlineCount :: nat
  totalCount :: nat

text \<open>
  A line of chat as the listener sees it: what each of the four regular expressions of
  the tracker finds in it (whether \<^verbatim>\<open>bound\<close> matches, the number captured by
  \<^verbatim>\<open>onlineMembers\<close>, the rank captured by \<^verbatim>\<open>guildRank\<close>, the names captured by
  \<^verbatim>\<open>playerOnlineStatus\<close>).
\<close>

record ChatLine =
  re_bound :: bool
  re_onlineMembers :: "nat option"
  re_guildRank :: "string option"
  re_playerOnlineStatus :: "string list"

text \<open>
  One call of \<^verbatim>\<open>updateOnlinePlayers\<close>: the fields of the tracker (\<open>isUpdating\<close>,
  \<open>lastUpdate\<close>), the variables of the closure (\<open>boundReceived\<close>, \<open>currentGuildRank\<close>,
  \<open>playerCount\<close>, \<open>players'\<close>), whether the call's listener is registered for
  \<^verbatim>\<open>'messagestr'\<close>, the commands sent to the game, the delay of the pending timer, and
  the value the promise has resolved with.
\<close>

record Session =
  isUpdating :: bool
  lastUpdate :: OnlinePlayersData
  boundReceived :: nat
  currentGuildRank :: "string option"
  playerCount :: "nat option"
  players' :: "(string \<times> string list) list"
  listening :: bool
  commands :: "string list"
  timer :: "int option"
  resolvedWith :: "OnlinePlayersData option"

text \<open>Truthiness of a string that may be undefined: the string when it is not empty.\<close>

definition truthy_string :: "string option \<Rightarrow> string option" where
  "truthy_string v = (case v of None \<Rightarrow> None | Some s \<Rightarrow> if s \<noteq> [] then Some s else None)"

text \<open>\<^verbatim>\<open>players[currentGuildRank] ??= []; players[currentGuildRank]?.push(username)\<close>.\<close>

fun pushPlayer :: "string \<Rightarrow> string \<Rightarrow> (string \<times> string list) list \<Rightarrow> (string \<times> string list) list" where
  "pushPlayer r u [] = [(r, [u])]"
| "pushPlayer r u ((k, v) # rest) =
     (if k = r then (k, v @ [u]) # rest else (k, v) # pushPlayer r u rest)"

text \<open>\<^verbatim>\<open>resolve(value)\<close>: a promise keeps the first value it is resolved with.\<close>

definition resolve :: "OnlinePlayersData \<Rightarrow> Session \<Rightarrow> Session" where
  "resolve d s = (case resolvedWith s of None \<Rightarrow> s\<lparr>resolvedWith := Some d\<rparr> | Some x \<Rightarrow> s)"

text \<open>The listener, lines 37-80, in the order of its statements.\<close>

definition countBound :: "ChatLine \<Rightarrow> Session \<Rightarrow> Session" where
  "countBound message s =
     (if re_bound message then s\<lparr>boundReceived := boundReceived s + 1\<rparr> else s)"

definition readPlayerCount :: "ChatLine \<Rightarrow> Session \<Rightarrow> Session" where
  "readPlayerCount message s =
     (if playerCount s = None then s\<lparr>playerCount := re_onlineMembers message\<rparr> else s)"

definition collectPlayers :: "ChatLine \<Rightarrow> Session \<Rightarrow> Session" where
  "collectPlayers message s =
     (case truthy_string (currentGuildRank s) of
        None \<Rightarrow> s
      | Some r \<Rightarrow>
          if boundReceived s > 0
          then s\<lparr>players' :=
                 foldl (\<lambda>ps username. if username \<noteq> [] then pushPlayer r username ps else ps)
                   (players' s) (re_playerOnlineStatus message)\<rparr>
          else s)"

definition completeUpdate :: "Session \<Rightarrow> Session" where
  "completeUpdate s =
     (let count = (case playerCount s of None \<Rightarrow> 0 | Some n \<Rightarrow> n);
          known = \<lparr>players = players' s, onlineCount = count, totalCount = 0\<rparr>
      in resolve known (s\<lparr>listening := False, lastUpdate := known, isUpdating := False\<rparr>))"

definition listener :: "ChatLine \<Rightarrow> Session \<Rightarrow> Session" where
  "listener message s =
     (let s1 = countBound message s
      in if boundReceived s1 = 0 then s1
         else
           (let s2 = readPlayerCount message s1
            in case truthy_string (re_guildRank message) of
                 Some newGuildRank \<Rightarrow> s2\<lparr>currentGuildRank := Some newGuildRank\<rparr>
               | None \<Rightarrow>
                   (let s3 = collectPlayers message s2
                    in if boundReceived s3 \<ge> 2 then completeUpdate s3 else s3)))"

text \<open>The callback of \<^verbatim>\<open>setTimeout(..., 5000)\<close>, lines 86-90.\<close>

definition onTimeout :: "Session \<Rightarrow> Session" where
  "onTimeout s = resolve (lastUpdate s) (s\<lparr>listening := False, timer := None, isUpdating := False\<rparr>)"

text \<open>
  The synchronous part of \<^verbatim>\<open>updateOnlinePlayers\<close> for a tracker with the given
  \<open>isUpdating\<close> and \<open>lastUpdate\<close>: a call during an update returns the last update at
  once; any other call registers the listener, sends \<^verbatim>\<open>/g online\<close> and starts the timer.
\<close>

definition updateOnlinePlayers :: "bool \<Rightarrow> OnlinePlayersData \<Rightarrow> Session" where
  "updateOnlinePlayers updating known =
     (if updating
      then \<lparr>isUpdating = updating, lastUpdate = known, boundReceived = 0, currentGuildRank = None,
            playerCount = None, players' = [], listening = False, commands = [], timer = None,
            resolvedWith = Some known\<rparr>
      else \<lparr>isUpdating = True, lastUpdate = known, boundReceived = 0, currentGuildRank = None,
            playerCount = None, players' = [], listening = True, commands = [''/g online''],
            timer = Some 5000, resolvedWith = None\<rparr>)"

text \<open>
  The bot emits \<^verbatim>\<open>'messagestr'\<close>: the listener runs if it is registered. The timer fires:
  its callback runs if the timer is pending.
\<close>

definition emit :: "ChatLine \<Rightarrow> Session \<Rightarrow> Session" where
  "emit message s = (if listening s then listener message s else s)"

definition emit_all :: "ChatLine list \<Rightarrow> Session \<Rightarrow> Session" where
  "emit_all messages s = foldl (\<lambda>s' m. emit m s') s messages"

definition fire :: "Session \<Rightarrow> Session" where
  "fire s = (case timer s of None \<Rightarrow> s | Some delay \<Rightarrow> onTimeout s)"


section \<open>Scenarios\<close>

text \<open>
  The objects of the end-to-end scenarios: Alice, of rank Member, asks about Bob; the
  extensions run with their default configurations and start with empty state.
\<close>

definition bedwars :: "string GameHandler" where
  "bedwars =
     \<lparr>gameMode = ''Bedwars'',
      buildStatsMessage = (\<lambda>target playerData.
        case playerData of
          PlayerData stats \<Rightarrow> Some (target @ '': '' @ stats)
        | MojangProfile uuid \<Rightarrow> None)\<rparr>"

definition hypixelConfig :: HypixelConfig where
  "hypixelConfig =
     \<lparr>enabled = True, guildRankCooldowns = None, hypixelApiKey = ''key'',
      cacheExpiryTime = defaultConfig_cacheExpiryTime\<rparr>"

definition urchinConfig :: UrchinConfig where
  "urchinConfig = \<lparr>enabled = True, urchinApiKey = ''key'', cooldownTime = 5 * 1000\<rparr>"

definition funBotConfig :: RankedConfig where
  "funBotConfig = \<lparr>enabled = True, guildRankCooldowns = None\<rparr>"

definition alice_asks_bob :: ChatMessageContext where
  "alice_asks_bob =
     \<lparr>username = ''Alice'', guildRank = Some ''Member'', channel = Some ''Guild'',
      matches1 = Some ''Bob''\<rparr>"

definition hypixel_idle :: "string Hypixel" where
  "hypixel_idle =
     \<lparr>cooldowns = Map.empty, sent = [], processingRequests = {}, calls = [], cache = Map.empty\<rparr>"

definition urchin_idle :: Guarded where
  "urchin_idle = \<lparr>cooldowns = Map.empty, sent = [], processingRequests = {}, calls = []\<rparr>"

definition funBot_idle :: Bot where
  "funBot_idle = \<lparr>cooldowns = Map.empty, sent = []\<rparr>"

definition stats_env :: "string fetch_outcome \<Rightarrow> string fetch_outcome \<Rightarrow> string StatsEnv" where
  "stats_env m p =
     \<lparr>nowCooldownCheck = 6000, nowSetCooldown = 6000, nowMojangGet = 6000, mojangFetched = m,
      nowMojangSet = 6100, nowPlayerGet = 6100, playerFetched = p, nowPlayerSet = 6200\<rparr>"

definition view_env :: "string response \<Rightarrow> UrchinTag list option response \<Rightarrow> UrchinEnv" where
  "view_env u t =
     \<lparr>nowCooldownCheck = 6000, nowSetCooldown = 6000, uuidResponse = u, urchinResponse = t\<rparr>"


text \<open>
  Lines of the answer to \<^verbatim>\<open>/g online\<close>: a boundary line, a rank header, a line of
  online names, the line with the number of online members.
\<close>

definition line_bound :: ChatLine where
  "line_bound = \<lparr>re_bound = True, re_onlineMembers = None, re_guildRank = None,
     re_playerOnlineStatus = []\<rparr>"

definition line_rank :: "string \<Rightarrow> ChatLine" where
  "line_rank r = \<lparr>re_bound = False, re_onlineMembers = None, re_guildRank = Some r,
     re_playerOnlineStatus = []\<rparr>"

definition line_players :: "string list \<Rightarrow> ChatLine" where
  "line_players names = \<lparr>re_bound = False, re_onlineMembers = None, re_guildRank = None,
     re_playerOnlineStatus = names\<rparr>"

definition line_online :: "nat \<Rightarrow> ChatLine" where
  "line_online n = \<lparr>re_bound = False, re_onlineMembers = Some n, re_guildRank = None,
     re_playerOnlineStatus = []\<rparr>"

definition nobody_online :: OnlinePlayersData where
  "nobody_online = \<lparr>players = [], onlineCount = 0, totalCount = 0\<rparr>"


section \<open>Properties of the cooldown policy\<close>

lemmas cooldown_defs =
  isOnCooldown_def FunBot_isOnCooldown_def isOnCooldownWith_def rankCooldowns_of_def
  resolveCooldownSeconds_def keywordCooldownSeconds_def remainingFor_def truthy_def
  property_of_def Object_prototype_def toLowerCase_def toLowerCase_char_def Math_ceil_div_def
  defaultConfig_guildRankCooldowns_def fallbackDefaults_guildRankCooldowns_def

lemmas string_defs = target_of_def trim_def isWhitespace_def generateCacheKey_def

lemmas stats_defs =
  createStatsHandler_def stats_begin_def stats_run_def stats_try_def stats_mojangProfile_def
  stats_playerData_def stats_requestKey_def handleFetchError_def getCachedData_def
  setCachedData_def setCooldown_def rejecting_def Let_def

lemmas view_defs =
  handleViewCommand_def view_begin_def view_run_def view_try_def view_uuid_def view_tags_def
  view_requestKey_def Urchin_isOnCooldown_def ok_def setCooldown_def Let_def

lemmas scenario_defs =
  bedwars_def hypixelConfig_def urchinConfig_def funBotConfig_def alice_asks_bob_def
  hypixel_idle_def urchin_idle_def funBot_idle_def stats_env_def view_env_def
  defaultConfig_cacheExpiryTime_def

lemma Math_ceil_div_ceiling:
  "Math_ceil_div a b = \<lceil>real_of_int a / real_of_int b\<rceil>"
proof -
  have "\<lceil>real_of_int a / real_of_int b\<rceil> = - \<lfloor>real_of_int (- a) / real_of_int b\<rfloor>"
    by (simp add: ceiling_def)
  also have "\<dots> = - ((- a) div b)"
    by (simp only: floor_divide_of_int_eq)
  finally show ?thesis by (simp add: Math_ceil_div_def)
qed

lemma keywordCooldownSeconds_no_keyword:
  assumes "\<forall>kw \<in> set rankKeywords. \<not> str_includes (toLowerCase r) kw"
  shows "keywordCooldownSeconds topKey rankCooldowns r = None"
  using assms by (simp add: keywordCooldownSeconds_def rankKeywords_def)

text \<open>The keys the tiers are read under are not inherited names: reading them gives the
  table's own entry.\<close>

lemma property_of_tier:
  "property_of rankCooldowns ''Guild Master'' = map_option Number (rankCooldowns ''Guild Master'')"
  "property_of rankCooldowns ''GM'' = map_option Number (rankCooldowns ''GM'')"
  "property_of rankCooldowns ''Leader'' = map_option Number (rankCooldowns ''Leader'')"
  "property_of rankCooldowns ''Moderator'' = map_option Number (rankCooldowns ''Moderator'')"
  "property_of rankCooldowns ''Elite'' = map_option Number (rankCooldowns ''Elite'')"
  "property_of rankCooldowns ''Member'' = map_option Number (rankCooldowns ''Member'')"
  by (simp_all add: property_of_def Object_prototype_def split: option.splits)

text \<open>
  Once \<^verbatim>\<open>cooldownSeconds\<close> has been resolved to \<open>0\<close> the answer is \<^verbatim>\<open>null\<close>, whatever the
  invocation history.
\<close>

lemma remainingFor_zero: "remainingFor (Some (Number 0)) cds playerName now = None"
  by (simp add: remainingFor_def)

lemma isOnCooldownWith_resolved_zero:
  "resolveCooldownSeconds topKey rankCooldowns rank = Some (Number 0)
     \<Longrightarrow> isOnCooldownWith topKey rankCooldowns cds playerName rank now = None"
  by (simp add: isOnCooldownWith_def remainingFor_zero)

text \<open>
  C1. A rank whose cooldown in the table is \<open>0\<close> is never throttled, also when the label is
  an exact key of the table mapped to \<open>0\<close>. The code does not do this: the exact-match
  test \<^verbatim>\<open>guildRank && rankCooldowns[guildRank]\<close> is false for a stored \<open>0\<close>, so such a
  label goes on to the keyword tests and the Member default. With the table
  \<open>{Officer: 0, Member: 45}\<close>, the rank \<open>Officer\<close> and a last invocation one second ago,
  \<^verbatim>\<open>isOnCooldown\<close> returns 44 seconds; the Fun Bot copy, under its fallback table with
  \<open>Mod\<close> set to \<open>0\<close>, returns 59 seconds for the rank \<open>Mod\<close>.
\<close>

theorem isOnCooldown_zero_exact_key_throttled:
  "isOnCooldown (Some [''Officer'' \<mapsto> 0, ''Member'' \<mapsto> 45]) [''alice'' \<mapsto> 1000] ''alice''
     (Some ''Officer'') 2000 = Some 44
   \<and> FunBot_isOnCooldown
       (Some [''GM'' \<mapsto> 0, ''Leader'' \<mapsto> 10, ''SBMAIN'' \<mapsto> 12, ''Elite'' \<mapsto> 15, ''Mod'' \<mapsto> 0,
              ''Member'' \<mapsto> 60])
       [''alice'' \<mapsto> 1000] ''alice'' (Some ''Mod'') 2000 = Some 59"
  by (simp add: cooldown_defs)

text \<open>
  C2, as stated: every label that is not a key of the table resolves to the Member
  tier's value. It fails at the label \<open>Co-Leader\<close> under \<open>{Leader: 15, Member: 60}\<close>:
  the label is not a key, it contains the keyword \<open>leader\<close>, and the cooldown resolved is
  the Leader tier's 15 seconds. Twenty seconds after the last invocation the user is not
  throttled, while the Member tier's 60 seconds would leave 40 seconds. It fails also at the
  label \<open>constructor\<close>, which is not a key either: the table object yields the member it
  inherits under that name, the exact-match test takes it, and the user is not throttled.
\<close>

theorem unlisted_rank_keyword_counterexample:
  "[''Leader'' \<mapsto> (15::int), ''Member'' \<mapsto> 60] ''Co-Leader'' = None
   \<and> [''Leader'' \<mapsto> (15::int), ''Member'' \<mapsto> 60] ''Member'' = Some 60
   \<and> resolveCooldownSeconds ''Guild Master'' [''Leader'' \<mapsto> 15, ''Member'' \<mapsto> 60]
        (Some ''Co-Leader'') = Some (Number 15)
   \<and> isOnCooldown (Some [''Leader'' \<mapsto> 15, ''Member'' \<mapsto> 60]) [''Bob'' \<mapsto> 1000] ''Bob''
        (Some ''Co-Leader'') 21000 = None
   \<and> remainingFor (Some (Number 60)) [''Bob'' \<mapsto> 1000] ''Bob'' 21000 = Some 40
   \<and> [''Leader'' \<mapsto> (15::int), ''Member'' \<mapsto> 60] ''constructor'' = None
   \<and> resolveCooldownSeconds ''Guild Master'' [''Leader'' \<mapsto> 15, ''Member'' \<mapsto> 60]
        (Some ''constructor'') = Some InheritedMember
   \<and> isOnCooldown (Some [''Leader'' \<mapsto> 15, ''Member'' \<mapsto> 60]) [''Bob'' \<mapsto> 1000] ''Bob''
        (Some ''constructor'') 21000 = None"
  by (simp add: cooldown_defs)

text \<open>
  C2, amended. Rank resolution takes an exact key whose value is not \<open>0\<close> first. A label
  that is neither a key of the table nor a name the table object inherits goes through the
  keyword tests on its lower-cased text, in this order: \<open>guild master\<close>, \<open>guildmaster\<close> or
  \<open>gm\<close> select the top tier (the key \<open>Guild Master\<close> in the Hypixel stats extension, \<open>GM\<close>
  in Fun Bot), \<open>leader\<close> the tier \<open>Leader\<close>, \<open>moderator\<close> or \<open>mod\<close> the tier \<open>Moderator\<close>,
  \<open>elite\<close> the tier \<open>Elite\<close>, and a tier that is missing from the table gives way to
  Member; such a label containing none of the keywords resolves to the Member tier's value,
  as does a missing rank, and \<^verbatim>\<open>isOnCooldown\<close> then answers from the Member value.
\<close>

theorem resolve_unlisted_rank:
  fixes rankCooldowns :: RankCooldownTable
  assumes "topKey = ''Guild Master'' \<or> topKey = ''GM''"
  shows "(r \<noteq> [] \<and> rankCooldowns r = Some c \<and> c \<noteq> 0
            \<longrightarrow> resolveCooldownSeconds topKey rankCooldowns (Some r) = Some (Number c))
       \<and> (rankCooldowns r = None \<and> r \<notin> set Object_prototype
            \<longrightarrow> resolveCooldownSeconds topKey rankCooldowns (Some r) =
                (let lower = toLowerCase r;
                     member = map_option Number (rankCooldowns ''Member'');
                     tier = (\<lambda>key. case rankCooldowns key of
                                      Some n \<Rightarrow> Some (Number n)
                                    | None \<Rightarrow> member)
                 in if str_includes lower ''guild master'' \<or> str_includes lower ''guildmaster''
                         \<or> str_includes lower ''gm''
                    then tier topKey
                    else if str_includes lower ''leader'' then tier ''Leader''
                    else if str_includes lower ''moderator'' \<or> str_includes lower ''mod''
                    then tier ''Moderator''
                    else if str_includes lower ''elite'' then tier ''Elite''
                    else member))
       \<and> (rankCooldowns r = None \<and> r \<notin> set Object_prototype
             \<and> (\<forall>kw \<in> set rankKeywords. \<not> str_includes (toLowerCase r) kw)
            \<longrightarrow> resolveCooldownSeconds topKey rankCooldowns (Some r)
                  = map_option Number (rankCooldowns ''Member'')
              \<and> isOnCooldownWith topKey rankCooldowns cds playerName (Some r) now =
                  remainingFor (map_option Number (rankCooldowns ''Member'')) cds playerName now)
       \<and> resolveCooldownSeconds topKey rankCooldowns None
            = map_option Number (rankCooldowns ''Member'')
       \<and> isOnCooldown configured cds playerName rank now =
            remainingFor
              (resolveCooldownSeconds ''Guild Master''
                 (rankCooldowns_of configured defaultConfig_guildRankCooldowns) rank)
              cds playerName now
       \<and> FunBot_isOnCooldown configured cds playerName rank now =
            remainingFor
              (resolveCooldownSeconds ''GM''
                 (rankCooldowns_of configured fallbackDefaults_guildRankCooldowns) rank)
              cds playerName now"
proof -
  have top: "property_of rankCooldowns topKey = map_option Number (rankCooldowns topKey)"
    using assms by (erule_tac disjE) (simp_all add: property_of_tier)
  note tiers = top property_of_tier [of rankCooldowns]
  have exact: "r \<noteq> [] \<and> rankCooldowns r = Some c \<and> c \<noteq> 0
      \<longrightarrow> resolveCooldownSeconds topKey rankCooldowns (Some r) = Some (Number c)"
    by (simp add: resolveCooldownSeconds_def property_of_def truthy_def)
  have chain: "rankCooldowns r = None \<and> r \<notin> set Object_prototype
      \<longrightarrow> resolveCooldownSeconds topKey rankCooldowns (Some r) =
          (let lower = toLowerCase r;
               member = map_option Number (rankCooldowns ''Member'');
               tier = (\<lambda>key. case rankCooldowns key of
                                Some n \<Rightarrow> Some (Number n)
                              | None \<Rightarrow> member)
           in if str_includes lower ''guild master'' \<or> str_includes lower ''guildmaster''
                   \<or> str_includes lower ''gm''
              then tier topKey
              else if str_includes lower ''leader'' then tier ''Leader''
              else if str_includes lower ''moderator'' \<or> str_includes lower ''mod''
              then tier ''Moderator''
              else if str_includes lower ''elite'' then tier ''Elite''
              else member)"
  proof (intro impI, elim conjE)
    assume a: "rankCooldowns r = None" "r \<notin> set Object_prototype"
    then have u: "property_of rankCooldowns r = None"
      by (simp add: property_of_def)
    show "resolveCooldownSeconds topKey rankCooldowns (Some r) =
          (let lower = toLowerCase r;
               member = map_option Number (rankCooldowns ''Member'');
               tier = (\<lambda>key. case rankCooldowns key of
                                Some n \<Rightarrow> Some (Number n)
                              | None \<Rightarrow> member)
           in if str_includes lower ''guild master'' \<or> str_includes lower ''guildmaster''
                   \<or> str_includes lower ''gm''
              then tier topKey
              else if str_includes lower ''leader'' then tier ''Leader''
              else if str_includes lower ''moderator'' \<or> str_includes lower ''mod''
              then tier ''Moderator''
              else if str_includes lower ''elite'' then tier ''Elite''
              else member)"
    proof (cases "r = []")
      case True
      then show ?thesis
        by (simp add: resolveCooldownSeconds_def toLowerCase_def tiers)
    next
      case False
      then show ?thesis
        by (simp add: resolveCooldownSeconds_def keywordCooldownSeconds_def truthy_def u tiers
            Let_def split: option.splits)
    qed
  qed
  have none: "rankCooldowns r = None \<and> r \<notin> set Object_prototype
       \<and> (\<forall>kw \<in> set rankKeywords. \<not> str_includes (toLowerCase r) kw)
      \<longrightarrow> resolveCooldownSeconds topKey rankCooldowns (Some r)
            = map_option Number (rankCooldowns ''Member'')
        \<and> isOnCooldownWith topKey rankCooldowns cds playerName (Some r) now =
            remainingFor (map_option Number (rankCooldowns ''Member'')) cds playerName now"
  proof (intro impI, elim conjE)
    assume a: "rankCooldowns r = None" "r \<notin> set Object_prototype"
      and k: "\<forall>kw \<in> set rankKeywords. \<not> str_includes (toLowerCase r) kw"
    from a have u: "property_of rankCooldowns r = None"
      by (simp add: property_of_def)
    have "resolveCooldownSeconds topKey rankCooldowns (Some r)
            = map_option Number (rankCooldowns ''Member'')"
      by (simp add: resolveCooldownSeconds_def keywordCooldownSeconds_no_keyword [OF k] truthy_def
          u tiers)
    then show "resolveCooldownSeconds topKey rankCooldowns (Some r)
            = map_option Number (rankCooldowns ''Member'')
        \<and> isOnCooldownWith topKey rankCooldowns cds playerName (Some r) now =
            remainingFor (map_option Number (rankCooldowns ''Member'')) cds playerName now"
      by (simp add: isOnCooldownWith_def)
  qed
  have missing: "resolveCooldownSeconds topKey rankCooldowns None
      = map_option Number (rankCooldowns ''Member'')"
    by (simp add: resolveCooldownSeconds_def tiers)
  have hyp: "isOnCooldown configured cds playerName rank now =
      remainingFor
        (resolveCooldownSeconds ''Guild Master''
           (rankCooldowns_of configured defaultConfig_guildRankCooldowns) rank)
        cds playerName now"
    by (simp add: isOnCooldown_def isOnCooldownWith_def)
  have fb: "FunBot_isOnCooldown configured cds playerName rank now =
      remainingFor
        (resolveCooldownSeconds ''GM''
           (rankCooldowns_of configured fallbackDefaults_guildRankCooldowns) rank)
        cds playerName now"
    by (simp add: FunBot_isOnCooldown_def isOnCooldownWith_def)
  show ?thesis
    by (intro conjI) (rule exact chain none missing hyp fb)+
qed

theorem resolve_unlisted_rank_witness:
  "resolveCooldownSeconds ''Guild Master'' defaultConfig_guildRankCooldowns (Some ''Elite'')
     = Some (Number 30)
   \<and> resolveCooldownSeconds ''Guild Master'' [''Leader'' \<mapsto> 15, ''Member'' \<mapsto> 60]
       (Some ''Co-Leader'') = Some (Number 15)
   \<and> resolveCooldownSeconds ''Guild Master'' [''Leader'' \<mapsto> 15, ''Member'' \<mapsto> 60]
       (Some ''Moderator'') = Some (Number 60)
   \<and> resolveCooldownSeconds ''Guild Master'' defaultConfig_guildRankCooldowns (Some ''Veteran'')
       = Some (Number 45)
   \<and> isOnCooldownWith ''Guild Master'' defaultConfig_guildRankCooldowns [''Bob'' \<mapsto> 1000] ''Bob''
        (Some ''Veteran'') 6000 = Some 40"
proof -
  have t: "''Guild Master'' = ''Guild Master'' \<or> ''Guild Master'' = ''GM''" by simp
  have e: "''Elite'' \<noteq> [] \<and> defaultConfig_guildRankCooldowns ''Elite'' = Some 30 \<and> (30::int) \<noteq> 0"
    by (simp add: defaultConfig_guildRankCooldowns_def)
  have c: "[''Leader'' \<mapsto> (15::int), ''Member'' \<mapsto> 60] ''Co-Leader'' = None
       \<and> ''Co-Leader'' \<notin> set Object_prototype"
    "[''Leader'' \<mapsto> (15::int), ''Member'' \<mapsto> 60] ''Moderator'' = None
       \<and> ''Moderator'' \<notin> set Object_prototype"
    by (simp_all add: Object_prototype_def)
  have l: "toLowerCase ''Co-Leader'' = ''co-leader''" "toLowerCase ''Moderator'' = ''moderator''"
    by (simp_all add: toLowerCase_def toLowerCase_char_def)
  have v: "defaultConfig_guildRankCooldowns ''Veteran'' = None
       \<and> ''Veteran'' \<notin> set Object_prototype
       \<and> (\<forall>kw \<in> set rankKeywords. \<not> str_includes (toLowerCase ''Veteran'') kw)"
    by (simp add: defaultConfig_guildRankCooldowns_def rankKeywords_def toLowerCase_def
        toLowerCase_char_def Object_prototype_def)
  have m: "defaultConfig_guildRankCooldowns ''Member'' = Some 45"
    by (simp add: defaultConfig_guildRankCooldowns_def)
  have k: "remainingFor (Some (Number 45)) [''Bob'' \<mapsto> 1000] ''Bob'' 6000 = Some 40"
    by (simp add: remainingFor_def Math_ceil_div_def)
  have a: "resolveCooldownSeconds ''Guild Master'' defaultConfig_guildRankCooldowns (Some ''Elite'')
     = Some (Number 30)"
    using resolve_unlisted_rank [OF t, where r="''Elite''"
        and rankCooldowns=defaultConfig_guildRankCooldowns and c=30] e
    by simp
  have b: "resolveCooldownSeconds ''Guild Master'' [''Leader'' \<mapsto> 15, ''Member'' \<mapsto> 60]
       (Some ''Co-Leader'') = Some (Number 15)"
    using resolve_unlisted_rank [OF t, where r="''Co-Leader''"
        and rankCooldowns="[''Leader'' \<mapsto> 15, ''Member'' \<mapsto> 60]"] c l
    by simp
  have b': "resolveCooldownSeconds ''Guild Master'' [''Leader'' \<mapsto> 15, ''Member'' \<mapsto> 60]
       (Some ''Moderator'') = Some (Number 60)"
    using resolve_unlisted_rank [OF t, where r="''Moderator''"
        and rankCooldowns="[''Leader'' \<mapsto> 15, ''Member'' \<mapsto> 60]"] c l
    by simp
  have d: "resolveCooldownSeconds ''Guild Master'' defaultConfig_guildRankCooldowns (Some ''Veteran'')
       = Some (Number 45)
     \<and> isOnCooldownWith ''Guild Master'' defaultConfig_guildRankCooldowns [''Bob'' \<mapsto> 1000] ''Bob''
        (Some ''Veteran'') 6000 = Some 40"
    using resolve_unlisted_rank [OF t, where r="''Veteran''"
        and rankCooldowns=defaultConfig_guildRankCooldowns and cds="[''Bob'' \<mapsto> 1000]"
        and playerName="''Bob''" and now=6000] v m k
    by (simp add: Let_def toLowerCase_def toLowerCase_char_def)
  from a b b' d show ?thesis by simp
qed

text \<open>
  The timestamps the extension's own writes leave in the cooldown map are readings of
  \<^verbatim>\<open>Date.now()\<close>, so none of them is \<open>0\<close>.
\<close>

lemma cooldown_step_positive:
  assumes "\<forall>p t. m p = Some t \<longrightarrow> 0 < t" and "reading_positive e"
  shows "\<forall>p t. cooldown_step m e p = Some t \<longrightarrow> 0 < t"
  using assms
  by (cases e) (auto simp: setCooldown_def cleanupOldCooldowns_def split: option.splits if_splits)

lemma foldl_cooldown_step_positive:
  "\<forall>p t. m p = Some t \<longrightarrow> 0 < t \<Longrightarrow> list_all reading_positive events
     \<Longrightarrow> \<forall>p t. foldl cooldown_step m events p = Some t \<longrightarrow> 0 < t"
proof (induction events arbitrary: m)
  case Nil
  then show ?case by simp
next
  case (Cons e events)
  from Cons.prems have "\<forall>p t. cooldown_step m e p = Some t \<longrightarrow> 0 < t"
    by (intro cooldown_step_positive) simp_all
  with Cons.IH [of "cooldown_step m e"] Cons.prems show ?case by simp
qed

lemma cooldowns_after_positive:
  "list_all reading_positive events \<Longrightarrow> cooldowns_after events p = Some t \<Longrightarrow> 0 < t"
  using foldl_cooldown_step_positive [of Map.empty events]
  by (simp add: cooldowns_after_def)

text \<open>
  C7. The cooldown map is the one the extension's own writes have left, each made with a
  reading of \<^verbatim>\<open>Date.now()\<close>. For a user with a recorded last invocation and a resolved
  cooldown that is not \<open>0\<close>: with \<open>elapsed = now - lastRun\<close>, \<^verbatim>\<open>isOnCooldown\<close> returns
  \<open>ceil((cooldownMillis - elapsed) / 1000)\<close> when \<open>elapsed < cooldownMillis\<close> and \<^verbatim>\<open>null\<close>
  otherwise; a user with no recorded invocation is not on cooldown.
\<close>

theorem isOnCooldown_remaining:
  assumes "list_all reading_positive events"
    and "resolveCooldownSeconds ''Guild Master''
             (rankCooldowns_of configured defaultConfig_guildRankCooldowns) rank
           = Some (Number secs)"
    and "secs \<noteq> 0"
  shows "(cooldowns_after events playerName = Some lastRun \<longrightarrow>
           isOnCooldown configured (cooldowns_after events) playerName rank now =
             (if now - lastRun < secs * 1000
              then Some \<lceil>real_of_int (secs * 1000 - (now - lastRun)) / 1000\<rceil>
              else None))
       \<and> (cooldowns_after events playerName = None \<longrightarrow>
           isOnCooldown configured (cooldowns_after events) playerName rank now = None)"
proof -
  have "cooldowns_after events playerName = Some lastRun \<longrightarrow> lastRun \<noteq> 0"
    using cooldowns_after_positive [OF assms(1), of playerName lastRun] by auto
  with assms(2,3) show ?thesis
    by (simp add: isOnCooldown_def isOnCooldownWith_def remainingFor_def Math_ceil_div_ceiling)
qed

theorem isOnCooldown_remaining_witness:
  "isOnCooldown None (cooldowns_after [Accepted ''Alice'' 1000]) ''Alice'' (Some ''Member'') 6000
     = Some 40
   \<and> isOnCooldown None (cooldowns_after [Accepted ''Alice'' 1000]) ''Alice'' (Some ''Member'') 46000
     = None
   \<and> isOnCooldown None (cooldowns_after [Accepted ''Alice'' 1000, Cleanup 700000]) ''Alice''
       (Some ''Member'') 700001 = None"
proof -
  have r: "resolveCooldownSeconds ''Guild Master''
             (rankCooldowns_of None defaultConfig_guildRankCooldowns) (Some ''Member'')
           = Some (Number 45)"
    by (simp add: rankCooldowns_of_def defaultConfig_guildRankCooldowns_def
        resolveCooldownSeconds_def property_of_def truthy_def)
  have nz: "(45::int) \<noteq> 0" by simp
  have p1: "list_all reading_positive [Accepted ''Alice'' 1000]"
    and p2: "list_all reading_positive [Accepted ''Alice'' 1000, Cleanup 700000]"
    by simp_all
  have c1: "cooldowns_after [Accepted ''Alice'' 1000] ''Alice'' = Some 1000"
    by (simp add: cooldowns_after_def setCooldown_def)
  have c2: "cooldowns_after [Accepted ''Alice'' 1000, Cleanup 700000] ''Alice'' = None"
    by (simp add: cooldowns_after_def setCooldown_def cleanupOldCooldowns_def)
  show ?thesis
    using isOnCooldown_remaining [OF p1 r nz, of "''Alice''" 1000 6000]
      isOnCooldown_remaining [OF p1 r nz, of "''Alice''" 1000 46000]
      isOnCooldown_remaining [OF p2 r nz, of "''Alice''" 1000 700001]
      c1 c2
    by simp
qed


section \<open>Properties of the lookup cache\<close>

text \<open>
  C6. A read at \<open>now \<ge> expiresAt\<close> returns \<^verbatim>\<open>null\<close> and deletes the entry; a read at
  \<open>now < expiresAt\<close> returns the stored data and leaves the cache as it is; whatever a read
  returns is the data of an entry that has not expired. After \<^verbatim>\<open>setCachedData\<close> at \<open>t0\<close>
  under the default TTL of 15 minutes, a read 14 minutes later returns the data that was
  stored and a read 16 minutes later returns \<^verbatim>\<open>null\<close> and removes the entry.
\<close>

theorem getCachedData_expiry:
  fixes cache :: "'d LookupCache"
  shows "(cache key = Some entry \<and> now \<ge> expiresAt entry
            \<longrightarrow> getCachedData cache key now = (None, cache(key := None)))
       \<and> (cache key = Some entry \<and> now < expiresAt entry
            \<longrightarrow> getCachedData cache key now = (Some (data entry), cache))
       \<and> (fst (getCachedData cache key now) = Some d
            \<longrightarrow> (\<exists>e. cache key = Some e \<and> data e = d \<and> now < expiresAt e))
       \<and> getCachedData (setCachedData defaultConfig_cacheExpiryTime cache key d t0) key
            (t0 + 14 * 60 * 1000)
          = (Some d, setCachedData defaultConfig_cacheExpiryTime cache key d t0)
       \<and> getCachedData (setCachedData defaultConfig_cacheExpiryTime cache key d t0) key
            (t0 + 16 * 60 * 1000)
          = (None, cache(key := None))"
  by (auto simp: getCachedData_def setCachedData_def defaultConfig_cacheExpiryTime_def
      split: option.splits if_splits)

theorem getCachedData_expiry_witness:
  "getCachedData [''mojang:steve'' \<mapsto> \<lparr>data = ''uuid-1'', timestamp = 0, expiresAt = 900000\<rparr>]
     ''mojang:steve'' 900000 = (None, Map.empty)
   \<and> getCachedData [''mojang:steve'' \<mapsto> \<lparr>data = ''uuid-1'', timestamp = 0, expiresAt = 900000\<rparr>]
     ''mojang:steve'' 899999
     = (Some ''uuid-1'',
        [''mojang:steve'' \<mapsto> \<lparr>data = ''uuid-1'', timestamp = 0, expiresAt = 900000\<rparr>])"
  using getCachedData_expiry
    [of "[''mojang:steve'' \<mapsto> \<lparr>data = ''uuid-1'', timestamp = 0, expiresAt = 900000\<rparr>]"
      "''mojang:steve''" "\<lparr>data = ''uuid-1'', timestamp = 0, expiresAt = 900000\<rparr>" 900000]
    getCachedData_expiry
    [of "[''mojang:steve'' \<mapsto> \<lparr>data = ''uuid-1'', timestamp = 0, expiresAt = 900000\<rparr>]"
      "''mojang:steve''" "\<lparr>data = ''uuid-1'', timestamp = 0, expiresAt = 900000\<rparr>" 899999]
  by simp


section \<open>What a run of a handler changes\<close>

text \<open>
  Each block of a handler, by the way it ends: what it does to the in-flight set, to the
  chat log and to the cooldown map.
\<close>

lemma stats_mojangProfile_frame:
  "(case stats_mojangProfile cfg env requester target k w of
      Next p w' \<Rightarrow> processingRequests w' = processingRequests w \<and> sent w' = sent w
        \<and> cooldowns w' = cooldowns w
    | Return w' \<Rightarrow> processingRequests w' = processingRequests w - {k}
        \<and> (\<exists>m. sent w' = sent w @ [sendGuildChat m]) \<and> cooldowns w' = cooldowns w
    | Throw w' \<Rightarrow> processingRequests w' = processingRequests w \<and> sent w' = sent w
        \<and> cooldowns w' = cooldowns w)"
  by (auto simp: stats_mojangProfile_def Let_def
      split: prod.splits option.splits fetch_outcome.splits)

lemma stats_playerData_frame:
  "(case stats_playerData cfg env requester target k mp w of
      Next p w' \<Rightarrow> processingRequests w' = processingRequests w \<and> sent w' = sent w
        \<and> cooldowns w' = cooldowns w
    | Return w' \<Rightarrow> processingRequests w' = processingRequests w - {k}
        \<and> (\<exists>m. sent w' = sent w @ [sendGuildChat m]) \<and> cooldowns w' = cooldowns w
    | Throw w' \<Rightarrow> processingRequests w' = processingRequests w \<and> sent w' = sent w
        \<and> cooldowns w' = cooldowns w)"
  by (auto simp: stats_playerData_def Let_def
      split: prod.splits option.splits fetch_outcome.splits payload.splits)

lemma stats_try_frame:
  "(case stats_try gh cfg env requester target k w of
      Next u w' \<Rightarrow> processingRequests w' = processingRequests w
        \<and> (\<exists>m. sent w' = sent w @ [sendGuildChat m]) \<and> cooldowns w' = cooldowns w
    | Return w' \<Rightarrow> processingRequests w' = processingRequests w - {k}
        \<and> (\<exists>m. sent w' = sent w @ [sendGuildChat m]) \<and> cooldowns w' = cooldowns w
    | Throw w' \<Rightarrow> processingRequests w' = processingRequests w \<and> sent w' = sent w
        \<and> cooldowns w' = cooldowns w)"
proof (cases "stats_mojangProfile cfg env requester target k w")
  case (Next mp w1)
  with stats_mojangProfile_frame
    [where cfg=cfg and env=env and requester=requester and target=target and k=k and w=w]
  have f1: "processingRequests w1 = processingRequests w" "sent w1 = sent w"
    "cooldowns w1 = cooldowns w"
    by simp_all
  show ?thesis
    using stats_playerData_frame
      [where cfg=cfg and env=env and requester=requester and target=target and k=k and mp=mp
         and w=w1] Next f1
    by (cases "stats_playerData cfg env requester target k mp w1")
       (auto simp: stats_try_def split: option.splits)
next
  case (Return w1)
  with stats_mojangProfile_frame
    [where cfg=cfg and env=env and requester=requester and target=target and k=k and w=w]
  show ?thesis by (simp add: stats_try_def)
next
  case (Throw w1)
  with stats_mojangProfile_frame
    [where cfg=cfg and env=env and requester=requester and target=target and k=k and w=w]
  show ?thesis by (simp add: stats_try_def)
qed

lemma stats_run_frame:
  "processingRequests (stats_run gh cfg env requester target k w) = processingRequests w - {k}
   \<and> (\<exists>m. sent (stats_run gh cfg env requester target k w) = sent w @ [sendGuildChat m])
   \<and> cooldowns (stats_run gh cfg env requester target k w) = cooldowns w"
  using stats_try_frame
    [where gh=gh and cfg=cfg and env=env and requester=requester and target=target and k=k
       and w=w]
  by (cases "stats_try gh cfg env requester target k w") (auto simp: stats_run_def Let_def)

lemma view_uuid_frame:
  "(case view_uuid env target w of
      Next u w' \<Rightarrow> processingRequests w' = processingRequests w \<and> sent w' = sent w
        \<and> cooldowns w' = cooldowns w
        \<and> (\<exists>s. uuidResponse env = Response s (Some u) \<and> s \<noteq> 204 \<and> s \<noteq> 404 \<and> ok s)
    | Return w' \<Rightarrow> processingRequests w' = processingRequests w
        \<and> (\<exists>m. sent w' = sent w @ [sendGuildChat m]) \<and> cooldowns w' = cooldowns w
        \<and> view_listed_tags env = None
    | Throw w' \<Rightarrow> False)"
  by (auto simp: view_uuid_def view_listed_tags_def Let_def split: response.splits option.splits)

lemma view_tags_frame:
  "(case view_tags cfg env target uuid w of
      Next u w' \<Rightarrow> processingRequests w' = processingRequests w \<and> cooldowns w' = cooldowns w
    | Return w' \<Rightarrow> processingRequests w' = processingRequests w \<and> cooldowns w' = cooldowns w
    | Throw w' \<Rightarrow> False)"
  by (auto simp: view_tags_def Let_def split: response.splits option.splits)

lemma view_try_frame:
  "(case view_try cfg env target w of
      Next u w' \<Rightarrow> processingRequests w' = processingRequests w \<and> cooldowns w' = cooldowns w
    | Return w' \<Rightarrow> processingRequests w' = processingRequests w \<and> cooldowns w' = cooldowns w
    | Throw w' \<Rightarrow> False)"
proof (cases "view_uuid env target w")
  case (Next uuid w1)
  with view_uuid_frame [where env=env and target=target and w=w]
  have f1: "processingRequests w1 = processingRequests w" "cooldowns w1 = cooldowns w"
    by simp_all
  show ?thesis
    using view_tags_frame [where cfg=cfg and env=env and target=target and uuid=uuid and w=w1]
      Next f1
    by (cases "view_tags cfg env target uuid w1") (auto simp: view_try_def)
next
  case (Return w1)
  with view_uuid_frame [where env=env and target=target and w=w]
  show ?thesis by (simp add: view_try_def)
next
  case (Throw w1)
  with view_uuid_frame [where env=env and target=target and w=w]
  show ?thesis by (simp add: view_try_def)
qed

lemma view_run_frame:
  "processingRequests (view_run cfg env target k w) = processingRequests w - {k}
   \<and> cooldowns (view_run cfg env target k w) = cooldowns w"
  using view_try_frame [where cfg=cfg and env=env and target=target and w=w]
  by (cases "view_try cfg env target w") (auto simp: view_run_def Let_def)

lemma view_tags_sent:
  assumes "uuidResponse env = Response s (Some u)" "s \<noteq> 204" "s \<noteq> 404" "ok s"
  shows "(case view_tags cfg env target u w of
      Next x w' \<Rightarrow>
        (case view_listed_tags env of
           Some tags \<Rightarrow> sent w' = sent w @ map (\<lambda>tag. sendGuildChat (TagLine target tag)) tags
         | None \<Rightarrow> (\<exists>m. sent w' = sent w @ [sendGuildChat m]))
    | Return w' \<Rightarrow> view_listed_tags env = None \<and> (\<exists>m. sent w' = sent w @ [sendGuildChat m])
    | Throw w' \<Rightarrow> False)"
  using assms
  by (auto simp: view_tags_def view_listed_tags_def Let_def split: response.splits option.splits)

lemma view_run_sent:
  "(case view_listed_tags env of
      Some tags \<Rightarrow> sent (view_run cfg env target k w) =
          sent w @ map (\<lambda>tag. sendGuildChat (TagLine target tag)) tags
    | None \<Rightarrow> (\<exists>m. sent (view_run cfg env target k w) = sent w @ [sendGuildChat m]))"
proof (cases "view_uuid env target w")
  case (Next u w1)
  with view_uuid_frame [where env=env and target=target and w=w]
  obtain s where r: "uuidResponse env = Response s (Some u)" "s \<noteq> 204" "s \<noteq> 404" "ok s"
    and f: "sent w1 = sent w"
    by auto
  show ?thesis
    using view_tags_sent [OF r, where cfg=cfg and target=target and w=w1] Next f
    by (cases "view_tags cfg env target u w1")
       (auto simp: view_run_def view_try_def Let_def split: option.splits)
next
  case (Return w1)
  with view_uuid_frame [where env=env and target=target and w=w]
  show ?thesis by (auto simp: view_run_def view_try_def Let_def)
next
  case (Throw w1)
  with view_uuid_frame [where env=env and target=target and w=w]
  show ?thesis by simp
qed











section \<open>Properties of the stats and view handlers\<close>

lemma key_stats: "stats_requestKey bedwars alice_asks_bob = ''Alice-Bob-Bedwars''"
  by (simp add: stats_requestKey_def string_defs scenario_defs)

lemma key_view: "view_requestKey alice_asks_bob = ''Alice-Bob-view''"
  by (simp add: view_requestKey_def string_defs scenario_defs)

lemma target_bob: "target_of alice_asks_bob = ''Bob''"
  by (simp add: string_defs scenario_defs)

text \<open>
  The three ways the \<^verbatim>\<open>try\<close> block of a stats handler ends: it runs to its end, it
  returns early on a fetch error, it throws.
\<close>

lemma stats_try_paths:
  "(\<exists>w'. stats_try bedwars hypixelConfig (stats_env (Resolved ''uuid1'') (Resolved ''5 stars''))
            ''Alice'' ''Bob'' ''Alice-Bob-Bedwars'' hypixel_idle = Next () w')
   \<and> (\<exists>w'. stats_try bedwars hypixelConfig (stats_env (ResolvedError 404) Rejected)
            ''Alice'' ''Bob'' ''Alice-Bob-Bedwars'' hypixel_idle = Return w')
   \<and> (\<exists>w'. stats_try bedwars hypixelConfig (stats_env Rejected Rejected)
            ''Alice'' ''Bob'' ''Alice-Bob-Bedwars'' hypixel_idle = Throw w')"
  by (simp add: stats_defs scenario_defs string_defs toLowerCase_def toLowerCase_char_def)

text \<open>
  C3, as stated: a request rejected by the cooldown check gets no chat response. In the
  stats handlers and in \<^verbatim>\<open>handleViewCommand\<close> the rejection is answered: Alice, of rank
  Member (45 seconds), asks again 5 seconds after her last request and is sent the notice
  that she can use the command again in 40 seconds; her \<^verbatim>\<open>!view\<close> 4 seconds after the last
  one is answered with the notice for 1 second.
\<close>

theorem cooldown_rejection_replies_counterexample:
  "rejecting (isOnCooldown (guildRankCooldowns hypixelConfig) [''Alice'' \<mapsto> 1000] ''Alice''
      (Some ''Member'') 6000) = Some 40
   \<and> sent (createStatsHandler bedwars hypixelConfig
        (stats_env (Resolved ''uuid1'') (Resolved ''5 stars'')) alice_asks_bob
        (hypixel_idle\<lparr>cooldowns := [''Alice'' \<mapsto> 1000]\<rparr>))
      = [sendGuildChat (CooldownNotice ''Alice'' 40)]
   \<and> Urchin_isOnCooldown (cooldownTime urchinConfig) [''Alice'' \<mapsto> 2000] ''Alice'' 6000 = 1
   \<and> sent (handleViewCommand urchinConfig
        (view_env (Response 200 (Some ''uuid1'')) (Response 404 None)) alice_asks_bob
        (urchin_idle\<lparr>cooldowns := [''Alice'' \<mapsto> 2000]\<rparr>))
      = [sendGuildChat (ViewCooldownNotice ''Alice'' 1)]"
  by (simp add: stats_defs view_defs scenario_defs string_defs cooldown_defs)

text \<open>
  C3, amended. A duplicate request suppressed by the dedup guard gets no chat response, and
  a Fun Bot reply on cooldown is dropped without a response; a stats or \<^verbatim>\<open>!view\<close> request
  rejected by the cooldown check gets exactly one chat response, the notice of the seconds
  left; every admitted stats request, and every admitted \<^verbatim>\<open>!view\<close> request that does not
  end in a list of tags, whichever way it fails, gets exactly one chat response.
\<close>

theorem chat_responses:
  "(stats_requestKey gh ctx \<in> processingRequests w
      \<longrightarrow> sent (createStatsHandler gh cfg env ctx w) = sent w)
   \<and> (view_requestKey ctx \<in> processingRequests v
      \<longrightarrow> sent (handleViewCommand ucfg uenv ctx v) = sent v)
   \<and> (rejecting (FunBot_isOnCooldown (guildRankCooldowns fcfg) (cooldowns b) (username ctx)
          (guildRank ctx) now) \<noteq> None
      \<longrightarrow> sendResponse fcfg now ctx message b = b)
   \<and> (enabled cfg \<and> stats_requestKey gh ctx \<notin> processingRequests w
        \<and> rejecting (isOnCooldown (guildRankCooldowns cfg) (cooldowns w) (username ctx)
             (guildRank ctx) (nowCooldownCheck env)) = Some n
      \<longrightarrow> sent (createStatsHandler gh cfg env ctx w) =
            sent w @ [sendGuildChat (CooldownNotice (username ctx) n)])
   \<and> (enabled ucfg \<and> view_requestKey ctx \<notin> processingRequests v
        \<and> Urchin_isOnCooldown (cooldownTime ucfg) (cooldowns v) (username ctx)
             (nowCooldownCheck uenv) > 0
      \<longrightarrow> sent (handleViewCommand ucfg uenv ctx v) =
            sent v @ [sendGuildChat (ViewCooldownNotice (username ctx)
               (Urchin_isOnCooldown (cooldownTime ucfg) (cooldowns v) (username ctx)
                  (nowCooldownCheck uenv)))])
   \<and> (enabled cfg \<and> stats_requestKey gh ctx \<notin> processingRequests w
        \<and> rejecting (isOnCooldown (guildRankCooldowns cfg) (cooldowns w) (username ctx)
             (guildRank ctx) (nowCooldownCheck env)) = None
      \<longrightarrow> (\<exists>m. sent (createStatsHandler gh cfg env ctx w) = sent w @ [sendGuildChat m]))
   \<and> (enabled ucfg \<and> view_requestKey ctx \<notin> processingRequests v
        \<and> \<not> Urchin_isOnCooldown (cooldownTime ucfg) (cooldowns v) (username ctx)
             (nowCooldownCheck uenv) > 0
        \<and> view_listed_tags uenv = None
      \<longrightarrow> (\<exists>m. sent (handleViewCommand ucfg uenv ctx v) = sent v @ [sendGuildChat m]))"
proof -
  have dup1: "stats_requestKey gh ctx \<in> processingRequests w
      \<longrightarrow> sent (createStatsHandler gh cfg env ctx w) = sent w"
    by (simp add: createStatsHandler_def stats_begin_def Let_def)
  have dup2: "view_requestKey ctx \<in> processingRequests v
      \<longrightarrow> sent (handleViewCommand ucfg uenv ctx v) = sent v"
    by (simp add: handleViewCommand_def view_begin_def Let_def)
  have fun1: "rejecting (FunBot_isOnCooldown (guildRankCooldowns fcfg) (cooldowns b) (username ctx)
          (guildRank ctx) now) \<noteq> None
      \<longrightarrow> sendResponse fcfg now ctx message b = b"
    by (simp add: sendResponse_def)
  have cd1: "enabled cfg \<and> stats_requestKey gh ctx \<notin> processingRequests w
        \<and> rejecting (isOnCooldown (guildRankCooldowns cfg) (cooldowns w) (username ctx)
             (guildRank ctx) (nowCooldownCheck env)) = Some n
      \<longrightarrow> sent (createStatsHandler gh cfg env ctx w) =
            sent w @ [sendGuildChat (CooldownNotice (username ctx) n)]"
    by (simp add: createStatsHandler_def stats_begin_def Let_def)
  have cd2: "enabled ucfg \<and> view_requestKey ctx \<notin> processingRequests v
        \<and> Urchin_isOnCooldown (cooldownTime ucfg) (cooldowns v) (username ctx)
             (nowCooldownCheck uenv) > 0
      \<longrightarrow> sent (handleViewCommand ucfg uenv ctx v) =
            sent v @ [sendGuildChat (ViewCooldownNotice (username ctx)
               (Urchin_isOnCooldown (cooldownTime ucfg) (cooldowns v) (username ctx)
                  (nowCooldownCheck uenv)))]"
    by (simp add: handleViewCommand_def view_begin_def Let_def)
  have run1: "enabled cfg \<and> stats_requestKey gh ctx \<notin> processingRequests w
        \<and> rejecting (isOnCooldown (guildRankCooldowns cfg) (cooldowns w) (username ctx)
             (guildRank ctx) (nowCooldownCheck env)) = None
      \<longrightarrow> (\<exists>m. sent (createStatsHandler gh cfg env ctx w) = sent w @ [sendGuildChat m])"
  proof (intro impI, elim conjE)
    assume a: "enabled cfg" "stats_requestKey gh ctx \<notin> processingRequests w"
      "rejecting (isOnCooldown (guildRankCooldowns cfg) (cooldowns w) (username ctx)
             (guildRank ctx) (nowCooldownCheck env)) = None"
    let ?w1 = "w\<lparr>cooldowns := setCooldown (cooldowns w) (username ctx) (nowSetCooldown env),
                 processingRequests := insert (stats_requestKey gh ctx) (processingRequests w)\<rparr>"
    from a have h: "createStatsHandler gh cfg env ctx w =
        stats_run gh cfg env (username ctx) (target_of ctx) (stats_requestKey gh ctx) ?w1"
      by (simp add: createStatsHandler_def stats_begin_def Let_def)
    from stats_run_frame [where gh=gh and cfg=cfg and env=env and requester="username ctx"
        and target="target_of ctx" and k="stats_requestKey gh ctx" and w="?w1"]
    show "\<exists>m. sent (createStatsHandler gh cfg env ctx w) = sent w @ [sendGuildChat m]"
      by (simp add: h)
  qed
  have run2: "enabled ucfg \<and> view_requestKey ctx \<notin> processingRequests v
        \<and> \<not> Urchin_isOnCooldown (cooldownTime ucfg) (cooldowns v) (username ctx)
             (nowCooldownCheck uenv) > 0
        \<and> view_listed_tags uenv = None
      \<longrightarrow> (\<exists>m. sent (handleViewCommand ucfg uenv ctx v) = sent v @ [sendGuildChat m])"
  proof (intro impI, elim conjE)
    assume a: "enabled ucfg" "view_requestKey ctx \<notin> processingRequests v"
      "\<not> Urchin_isOnCooldown (cooldownTime ucfg) (cooldowns v) (username ctx)
             (nowCooldownCheck uenv) > 0" and n: "view_listed_tags uenv = None"
    let ?v1 = "v\<lparr>cooldowns := setCooldown (cooldowns v) (username ctx) (nowSetCooldown uenv),
                 processingRequests := insert (view_requestKey ctx) (processingRequests v)\<rparr>"
    from a have h: "handleViewCommand ucfg uenv ctx v =
        view_run ucfg uenv (target_of ctx) (view_requestKey ctx) ?v1"
      by (simp add: handleViewCommand_def view_begin_def Let_def)
    from view_run_sent [where env=uenv and cfg=ucfg and target="target_of ctx"
        and k="view_requestKey ctx" and w="?v1"] n
    show "\<exists>m. sent (handleViewCommand ucfg uenv ctx v) = sent v @ [sendGuildChat m]"
      by (simp add: h)
  qed
  from dup1 dup2 fun1 cd1 cd2 run1 run2 show ?thesis by blast
qed

theorem chat_responses_witness:
  "sent (createStatsHandler bedwars hypixelConfig
          (stats_env (Resolved ''uuid1'') (Resolved ''5 stars'')) alice_asks_bob
          (hypixel_idle\<lparr>processingRequests := {''Alice-Bob-Bedwars''}\<rparr>)) = []
   \<and> sent (handleViewCommand urchinConfig
          (view_env (Response 200 (Some ''uuid1'')) (Response 404 None)) alice_asks_bob
          (urchin_idle\<lparr>processingRequests := {''Alice-Bob-view''}\<rparr>)) = []
   \<and> sendResponse funBotConfig 6000 alice_asks_bob ''Pong!''
          (funBot_idle\<lparr>cooldowns := [''Alice'' \<mapsto> 1000]\<rparr>)
        = funBot_idle\<lparr>cooldowns := [''Alice'' \<mapsto> 1000]\<rparr>
   \<and> sent (createStatsHandler bedwars hypixelConfig
          (stats_env (Resolved ''uuid1'') (Resolved ''5 stars'')) alice_asks_bob
          (hypixel_idle\<lparr>cooldowns := [''Alice'' \<mapsto> 1000]\<rparr>))
        = [sendGuildChat (CooldownNotice ''Alice'' 40)]
   \<and> sent (handleViewCommand urchinConfig
          (view_env (Response 200 (Some ''uuid1'')) (Response 404 None)) alice_asks_bob
          (urchin_idle\<lparr>cooldowns := [''Alice'' \<mapsto> 2000]\<rparr>))
        = [sendGuildChat (ViewCooldownNotice ''Alice'' 1)]
   \<and> (\<exists>m. sent (createStatsHandler bedwars hypixelConfig
          (stats_env (ResolvedError 404) Rejected) alice_asks_bob hypixel_idle)
        = [sendGuildChat m])
   \<and> (\<exists>m. sent (handleViewCommand urchinConfig
          (view_env (Response 500 None) NetworkError) alice_asks_bob urchin_idle)
        = [sendGuildChat m])"
proof -
  have f: "rejecting (FunBot_isOnCooldown (guildRankCooldowns funBotConfig)
             (cooldowns (funBot_idle\<lparr>cooldowns := [''Alice'' \<mapsto> 1000]\<rparr>))
             (username alice_asks_bob) (guildRank alice_asks_bob) 6000) \<noteq> None"
    by (simp add: scenario_defs cooldown_defs rejecting_def)
  have c1: "rejecting (isOnCooldown (guildRankCooldowns hypixelConfig)
             (cooldowns (hypixel_idle\<lparr>cooldowns := [''Alice'' \<mapsto> 1000]\<rparr>))
             (username alice_asks_bob) (guildRank alice_asks_bob)
             (nowCooldownCheck (stats_env (Resolved ''uuid1'') (Resolved ''5 stars'')))) = Some 40"
    by (simp add: scenario_defs cooldown_defs rejecting_def)
  have c2: "Urchin_isOnCooldown (cooldownTime urchinConfig)
             (cooldowns (urchin_idle\<lparr>cooldowns := [''Alice'' \<mapsto> 2000]\<rparr>))
             (username alice_asks_bob)
             (nowCooldownCheck (view_env (Response 200 (Some ''uuid1'')) (Response 404 None))) = 1"
    by (simp add: scenario_defs Urchin_isOnCooldown_def Math_ceil_div_def)
  have a1: "rejecting (isOnCooldown (guildRankCooldowns hypixelConfig) (cooldowns hypixel_idle)
             (username alice_asks_bob) (guildRank alice_asks_bob)
             (nowCooldownCheck (stats_env (ResolvedError 404) Rejected))) = None"
    by (simp add: scenario_defs cooldown_defs rejecting_def)
  have a2: "\<not> Urchin_isOnCooldown (cooldownTime urchinConfig) (cooldowns urchin_idle)
             (username alice_asks_bob)
             (nowCooldownCheck (view_env (Response 500 None) NetworkError)) > 0"
    by (simp add: scenario_defs Urchin_isOnCooldown_def)
  have a3: "view_listed_tags (view_env (Response 500 None) NetworkError) = None"
    by (simp add: view_listed_tags_def view_env_def ok_def)
  have e: "enabled hypixelConfig" "enabled urchinConfig"
    by (simp_all add: scenario_defs)
  have u: "username alice_asks_bob = ''Alice''"
    by (simp add: scenario_defs)
  have i: "sent hypixel_idle = []" "sent urchin_idle = []"
    "processingRequests hypixel_idle = {}" "processingRequests urchin_idle = {}"
    by (simp_all add: scenario_defs)
  show ?thesis
    using
      chat_responses [where gh=bedwars and ctx=alice_asks_bob and cfg=hypixelConfig
        and env="stats_env (Resolved ''uuid1'') (Resolved ''5 stars'')"
        and w="hypixel_idle\<lparr>processingRequests := {''Alice-Bob-Bedwars''}\<rparr>"
        and ucfg=urchinConfig
        and uenv="view_env (Response 200 (Some ''uuid1'')) (Response 404 None)"
        and v="urchin_idle\<lparr>processingRequests := {''Alice-Bob-view''}\<rparr>"
        and fcfg=funBotConfig and now=6000 and message="''Pong!''"
        and b="funBot_idle\<lparr>cooldowns := [''Alice'' \<mapsto> 1000]\<rparr>"]
      chat_responses [where gh=bedwars and ctx=alice_asks_bob and cfg=hypixelConfig
        and env="stats_env (Resolved ''uuid1'') (Resolved ''5 stars'')"
        and w="hypixel_idle\<lparr>cooldowns := [''Alice'' \<mapsto> 1000]\<rparr>" and n=40
        and ucfg=urchinConfig
        and uenv="view_env (Response 200 (Some ''uuid1'')) (Response 404 None)"
        and v="urchin_idle\<lparr>cooldowns := [''Alice'' \<mapsto> 2000]\<rparr>"]
      chat_responses [where gh=bedwars and ctx=alice_asks_bob and cfg=hypixelConfig
        and env="stats_env (ResolvedError 404) Rejected" and w=hypixel_idle
        and ucfg=urchinConfig and uenv="view_env (Response 500 None) NetworkError"
        and v=urchin_idle]
      f c1 c2 a1 a2 a3 e u i key_stats key_view
    by simp
qed

text \<open>
  C4. Whatever way the body of a stats handler or of \<^verbatim>\<open>handleViewCommand\<close> completes (it
  runs to its end, returns early on a fetch error, or throws into its \<^verbatim>\<open>catch\<close> block),
  the request key is absent from the in-flight set afterwards; a handler run to completion
  leaves the in-flight set as it found it.
\<close>

theorem request_key_released:
  "k \<notin> processingRequests (stats_run gh cfg env requester target k w)
   \<and> k \<notin> processingRequests (view_run ucfg uenv target k v)
   \<and> processingRequests (createStatsHandler gh cfg env ctx w) = processingRequests w
   \<and> processingRequests (handleViewCommand ucfg uenv ctx v) = processingRequests v"
proof -
  have a: "k \<notin> processingRequests (stats_run gh cfg env requester target k w)"
    by (simp add: stats_run_frame)
  have b: "k \<notin> processingRequests (view_run ucfg uenv target k v)"
    by (simp add: view_run_frame)
  have c: "processingRequests (createStatsHandler gh cfg env ctx w) = processingRequests w"
    by (auto simp: createStatsHandler_def stats_begin_def stats_run_frame Let_def
        split: option.splits)
  have d: "processingRequests (handleViewCommand ucfg uenv ctx v) = processingRequests v"
    by (auto simp: handleViewCommand_def view_begin_def view_run_frame Let_def)
  from a b c d show ?thesis by simp
qed

theorem request_key_released_witness:
  "''Alice-Bob-Bedwars'' \<notin> processingRequests
      (stats_run bedwars hypixelConfig (stats_env (Resolved ''uuid1'') (Resolved ''5 stars''))
         ''Alice'' ''Bob'' ''Alice-Bob-Bedwars''
         (hypixel_idle\<lparr>processingRequests := {''Alice-Bob-Bedwars''}\<rparr>))
   \<and> ''Alice-Bob-Bedwars'' \<notin> processingRequests
      (stats_run bedwars hypixelConfig (stats_env (ResolvedError 404) Rejected)
         ''Alice'' ''Bob'' ''Alice-Bob-Bedwars''
         (hypixel_idle\<lparr>processingRequests := {''Alice-Bob-Bedwars''}\<rparr>))
   \<and> ''Alice-Bob-Bedwars'' \<notin> processingRequests
      (stats_run bedwars hypixelConfig (stats_env Rejected Rejected)
         ''Alice'' ''Bob'' ''Alice-Bob-Bedwars''
         (hypixel_idle\<lparr>processingRequests := {''Alice-Bob-Bedwars''}\<rparr>))
   \<and> ''Alice-Bob-view'' \<notin> processingRequests
      (view_run urchinConfig (view_env NetworkError NetworkError) ''Bob'' ''Alice-Bob-view''
         (urchin_idle\<lparr>processingRequests := {''Alice-Bob-view''}\<rparr>))"
proof -
  let ?w = "hypixel_idle\<lparr>processingRequests := {''Alice-Bob-Bedwars''}\<rparr>"
  have a: "''Alice-Bob-Bedwars'' \<notin> processingRequests
      (stats_run bedwars hypixelConfig (stats_env (Resolved ''uuid1'') (Resolved ''5 stars''))
         ''Alice'' ''Bob'' ''Alice-Bob-Bedwars'' ?w)"
    by (rule request_key_released [THEN conjunct1])
  have b: "''Alice-Bob-Bedwars'' \<notin> processingRequests
      (stats_run bedwars hypixelConfig (stats_env (ResolvedError 404) Rejected)
         ''Alice'' ''Bob'' ''Alice-Bob-Bedwars'' ?w)"
    by (rule request_key_released [THEN conjunct1])
  have c: "''Alice-Bob-Bedwars'' \<notin> processingRequests
      (stats_run bedwars hypixelConfig (stats_env Rejected Rejected)
         ''Alice'' ''Bob'' ''Alice-Bob-Bedwars'' ?w)"
    by (rule request_key_released [THEN conjunct1])
  have d: "''Alice-Bob-view'' \<notin> processingRequests
      (view_run urchinConfig (view_env NetworkError NetworkError) ''Bob'' ''Alice-Bob-view''
         (urchin_idle\<lparr>processingRequests := {''Alice-Bob-view''}\<rparr>))"
    by (rule request_key_released [THEN conjunct2, THEN conjunct1])
  from a b c d show ?thesis by simp
qed




text \<open>
  C8. When the Mojang lookup of an admitted \<^verbatim>\<open>!view\<close> request answers with status 204 or
  404, the handler sends exactly one message, that the target is not a valid Minecraft
  username, and its only external call is the Mojang lookup: the tag provider is never
  called. The in-flight set is left as it was.
\<close>

theorem view_unknown_username:
  assumes "enabled cfg"
    and "view_requestKey ctx \<notin> processingRequests w"
    and "\<not> Urchin_isOnCooldown (cooldownTime cfg) (cooldowns w) (username ctx)
            (nowCooldownCheck env) > 0"
    and "uuidResponse env = Response status body"
    and "status = 204 \<or> status = 404"
  shows "sent (handleViewCommand cfg env ctx w) =
           sent w @ [sendGuildChat (NotValidUsername (target_of ctx))]
       \<and> calls (handleViewCommand cfg env ctx w) = calls w @ [fetch_mojang_uuid (target_of ctx)]
       \<and> processingRequests (handleViewCommand cfg env ctx w) = processingRequests w"
  using assms
  by (auto simp: handleViewCommand_def view_begin_def view_run_def view_try_def view_uuid_def
      Let_def)

theorem view_unknown_username_witness:
  "sent (handleViewCommand urchinConfig
          (view_env (Response 204 None) (Response 200 (Some (Some [Tag (Some ''sniper'') None]))))
          alice_asks_bob urchin_idle)
     = [sendGuildChat (NotValidUsername ''Bob'')]
   \<and> calls (handleViewCommand urchinConfig
          (view_env (Response 204 None) (Response 200 (Some (Some [Tag (Some ''sniper'') None]))))
          alice_asks_bob urchin_idle)
     = [fetch_mojang_uuid ''Bob'']
   \<and> processingRequests (handleViewCommand urchinConfig
          (view_env (Response 204 None) (Response 200 (Some (Some [Tag (Some ''sniper'') None]))))
          alice_asks_bob urchin_idle)
     = {}"
proof -
  let ?env = "view_env (Response 204 None) (Response 200 (Some (Some [Tag (Some ''sniper'') None])))"
  have e: "enabled urchinConfig" by (simp add: scenario_defs)
  have k: "view_requestKey alice_asks_bob \<notin> processingRequests urchin_idle"
    by (simp add: scenario_defs)
  have c: "\<not> Urchin_isOnCooldown (cooldownTime urchinConfig) (cooldowns urchin_idle)
             (username alice_asks_bob) (nowCooldownCheck ?env) > 0"
    by (simp add: scenario_defs Urchin_isOnCooldown_def)
  have r: "uuidResponse ?env = Response 204 None"
    by (simp add: view_env_def)
  have s: "(204::int) = 204 \<or> (204::int) = 404" by simp
  have i: "sent urchin_idle = []" "calls urchin_idle = []" "processingRequests urchin_idle = {}"
    by (simp_all add: scenario_defs)
  show ?thesis
    using view_unknown_username [OF e k c r s] i target_bob by simp
qed

text \<open>
  C10. A stats or \<^verbatim>\<open>!view\<close> handler invoked with a request key that is already in the
  in-flight set returns before the cooldown check: the cooldown map, the cache, the
  in-flight set and the logs of messages and lookups are all as they were.
\<close>

theorem duplicate_request_changes_nothing:
  "(stats_requestKey gh ctx \<in> processingRequests w \<longrightarrow> createStatsHandler gh cfg env ctx w = w)
   \<and> (view_requestKey ctx \<in> processingRequests v \<longrightarrow> handleViewCommand ucfg uenv ctx v = v)"
  by (simp add: createStatsHandler_def stats_begin_def handleViewCommand_def view_begin_def Let_def)


theorem duplicate_request_changes_nothing_witness:
  "createStatsHandler bedwars hypixelConfig (stats_env (Resolved ''uuid1'') (Resolved ''5 stars''))
     alice_asks_bob
     (hypixel_idle\<lparr>cooldowns := [''Alice'' \<mapsto> 5000], processingRequests := {''Alice-Bob-Bedwars''}\<rparr>)
   = hypixel_idle\<lparr>cooldowns := [''Alice'' \<mapsto> 5000], processingRequests := {''Alice-Bob-Bedwars''}\<rparr>
   \<and> handleViewCommand urchinConfig (view_env (Response 200 (Some ''uuid1'')) (Response 404 None))
     alice_asks_bob
     (urchin_idle\<lparr>cooldowns := [''Alice'' \<mapsto> 5000], processingRequests := {''Alice-Bob-view''}\<rparr>)
   = urchin_idle\<lparr>cooldowns := [''Alice'' \<mapsto> 5000], processingRequests := {''Alice-Bob-view''}\<rparr>"
proof -
  have k1: "stats_requestKey bedwars alice_asks_bob = ''Alice-Bob-Bedwars''"
    by (simp add: stats_requestKey_def string_defs scenario_defs)
  have k2: "view_requestKey alice_asks_bob = ''Alice-Bob-view''"
    by (simp add: view_requestKey_def string_defs scenario_defs)
  show ?thesis
    using duplicate_request_changes_nothing
      [of bedwars alice_asks_bob
        "hypixel_idle\<lparr>cooldowns := [''Alice'' \<mapsto> 5000], processingRequests := {''Alice-Bob-Bedwars''}\<rparr>"
        hypixelConfig "stats_env (Resolved ''uuid1'') (Resolved ''5 stars'')"
        "urchin_idle\<lparr>cooldowns := [''Alice'' \<mapsto> 5000], processingRequests := {''Alice-Bob-view''}\<rparr>"
        urchinConfig "view_env (Response 200 (Some ''uuid1'')) (Response 404 None)"]
      k1 k2
    by simp
qed


section \<open>The listener and the timer of \<^verbatim>\<open>updateOnlinePlayers\<close>\<close>

lemma countBound_fields [simp]:
  "listening (countBound m s) = listening s" "resolvedWith (countBound m s) = resolvedWith s"
  "lastUpdate (countBound m s) = lastUpdate s" "timer (countBound m s) = timer s"
  "isUpdating (countBound m s) = isUpdating s"
  "boundReceived (countBound m s) = boundReceived s + (if re_bound m then 1 else 0)"
  by (simp_all add: countBound_def)

lemma readPlayerCount_fields [simp]:
  "listening (readPlayerCount m s) = listening s"
  "resolvedWith (readPlayerCount m s) = resolvedWith s"
  "lastUpdate (readPlayerCount m s) = lastUpdate s" "timer (readPlayerCount m s) = timer s"
  "isUpdating (readPlayerCount m s) = isUpdating s"
  "boundReceived (readPlayerCount m s) = boundReceived s"
  by (simp_all add: readPlayerCount_def)

lemma collectPlayers_fields [simp]:
  "listening (collectPlayers m s) = listening s"
  "resolvedWith (collectPlayers m s) = resolvedWith s"
  "lastUpdate (collectPlayers m s) = lastUpdate s" "timer (collectPlayers m s) = timer s"
  "isUpdating (collectPlayers m s) = isUpdating s"
  "boundReceived (collectPlayers m s) = boundReceived s"
  by (simp_all add: collectPlayers_def split: option.splits)

lemma resolve_fields [simp]:
  "listening (resolve d s) = listening s" "lastUpdate (resolve d s) = lastUpdate s"
  "timer (resolve d s) = timer s" "isUpdating (resolve d s) = isUpdating s"
  "boundReceived (resolve d s) = boundReceived s"
  "resolvedWith (resolve d s) = (case resolvedWith s of None \<Rightarrow> Some d | Some x \<Rightarrow> Some x)"
  by (simp_all add: resolve_def split: option.splits)

lemma completeUpdate_fields [simp]:
  "\<not> listening (completeUpdate s)" "timer (completeUpdate s) = timer s" "\<not> isUpdating (completeUpdate s)"
  "boundReceived (completeUpdate s) = boundReceived s"
  "resolvedWith s = None \<Longrightarrow> resolvedWith (completeUpdate s) = Some (lastUpdate (completeUpdate s))"
  by (simp_all add: completeUpdate_def Let_def)

lemma onTimeout_fields [simp]:
  "\<not> listening (onTimeout s)" "timer (onTimeout s) = None" "\<not> isUpdating (onTimeout s)"
  "lastUpdate (onTimeout s) = lastUpdate s"
  "resolvedWith (onTimeout s) = (case resolvedWith s of None \<Rightarrow> Some (lastUpdate s) | Some x \<Rightarrow> Some x)"
  by (simp_all add: onTimeout_def)

lemma listener_pending:
  assumes "boundReceived s + (if re_bound m then 1 else 0) < 2"
  shows "resolvedWith (listener m s) = resolvedWith s \<and> listening (listener m s) = listening s
      \<and> lastUpdate (listener m s) = lastUpdate s \<and> timer (listener m s) = timer s
      \<and> isUpdating (listener m s) = isUpdating s
      \<and> boundReceived (listener m s) = boundReceived s + (if re_bound m then 1 else 0)"
  using assms by (simp add: listener_def Let_def split: option.splits if_splits)

lemma listener_deregisters:
  assumes "resolvedWith s = None"
  shows "(resolvedWith (listener m s) = None \<and> listening (listener m s) = listening s)
       \<or> (resolvedWith (listener m s) = Some (lastUpdate (listener m s))
           \<and> \<not> listening (listener m s) \<and> \<not> isUpdating (listener m s))"
  using assms by (simp add: listener_def Let_def split: option.splits)

lemma listener_timer [simp]: "timer (listener m s) = timer s"
  by (simp add: listener_def Let_def split: option.splits)

lemma emit_idle: "\<not> listening s \<Longrightarrow> emit_all ms s = s"
  by (induction ms) (simp_all add: emit_all_def emit_def)

lemma emit_all_Cons: "emit_all (m # ms) s = emit_all ms (emit m s)"
  by (simp add: emit_all_def)

lemma emit_all_timer: "timer (emit_all ms s) = timer s"
  by (induction ms arbitrary: s) (simp_all add: emit_all_def emit_def)

lemma emit_all_deregisters:
  "resolvedWith s \<noteq> None \<longrightarrow> \<not> listening s
     \<Longrightarrow> resolvedWith (emit_all ms s) \<noteq> None \<longrightarrow> \<not> listening (emit_all ms s)"
proof (induction ms arbitrary: s)
  case Nil
  then show ?case by (simp add: emit_all_def)
next
  case (Cons m ms)
  have "resolvedWith (emit m s) \<noteq> None \<longrightarrow> \<not> listening (emit m s)"
  proof (cases "listening s")
    case True
    with Cons.prems have "resolvedWith s = None" by auto
    from listener_deregisters [OF this, of m] True show ?thesis
      by (auto simp: emit_def)
  next
    case False
    then show ?thesis by (simp add: emit_def)
  qed
  from Cons.IH [OF this] show ?case by (simp add: emit_all_Cons)
qed

lemma emit_all_pending:
  "resolvedWith s = None \<Longrightarrow> listening s
     \<Longrightarrow> boundReceived s + length (filter re_bound ms) < 2
     \<Longrightarrow> resolvedWith (emit_all ms s) = None \<and> listening (emit_all ms s)
         \<and> lastUpdate (emit_all ms s) = lastUpdate s"
proof (induction ms arbitrary: s)
  case Nil
  then show ?case by (simp add: emit_all_def)
next
  case (Cons m ms)
  from Cons.prems have b: "boundReceived s + (if re_bound m then 1 else 0) < 2"
    by (simp split: if_splits)
  from listener_pending [OF b] Cons.prems
  have "resolvedWith (emit m s) = None" "listening (emit m s)"
    "boundReceived (emit m s) + length (filter re_bound ms) < 2"
    "lastUpdate (emit m s) = lastUpdate s"
    by (simp_all add: emit_def split: if_splits)
  from Cons.IH [OF this(1-3)] this(4) show ?case by (simp add: emit_all_Cons)
qed

text \<open>
  C9. A call of \<^verbatim>\<open>updateOnlinePlayers\<close> that starts an update registers its listener and
  a timer of 5000 milliseconds. When the listener completes the update (the second
  boundary line has arrived) it has deregistered itself before the promise resolves; when
  the timer fires the listener is deregistered and the promise is resolved, with the last
  known data if fewer than two boundary lines arrived before; after that no line reaches
  the listener any more. A call made during an update returns the last known data at once
  and registers nothing. The lines \<open>before\<close> are those that arrive before the timer
  fires, the lines \<open>after\<close> those that arrive later.
\<close>

theorem updateOnlinePlayers_timeout_race:
  "timer (updateOnlinePlayers False known) = Some 5000
   \<and> listening (updateOnlinePlayers False known)
   \<and> resolvedWith (updateOnlinePlayers False known) = None
   \<and> (resolvedWith (emit_all before (updateOnlinePlayers False known)) \<noteq> None
        \<longrightarrow> \<not> listening (emit_all before (updateOnlinePlayers False known)))
   \<and> \<not> listening (fire (emit_all before (updateOnlinePlayers False known)))
   \<and> resolvedWith (fire (emit_all before (updateOnlinePlayers False known))) \<noteq> None
   \<and> (length (filter re_bound before) < 2
        \<longrightarrow> resolvedWith (fire (emit_all before (updateOnlinePlayers False known))) = Some known)
   \<and> emit_all after (fire (emit_all before (updateOnlinePlayers False known)))
        = fire (emit_all before (updateOnlinePlayers False known))
   \<and> \<not> listening (updateOnlinePlayers True known)
   \<and> resolvedWith (updateOnlinePlayers True known) = Some known"
proof -
  let ?s0 = "updateOnlinePlayers False known"
  let ?s1 = "emit_all before ?s0"
  have init: "timer ?s0 = Some 5000" "listening ?s0" "resolvedWith ?s0 = None"
    "boundReceived ?s0 = 0" "lastUpdate ?s0 = known"
    by (simp_all add: updateOnlinePlayers_def)
  have busy: "\<not> listening (updateOnlinePlayers True known)"
    "resolvedWith (updateOnlinePlayers True known) = Some known"
    by (simp_all add: updateOnlinePlayers_def)
  have t1: "timer ?s1 = Some 5000"
    by (simp add: emit_all_timer init)
  then have f: "fire ?s1 = onTimeout ?s1"
    by (simp add: fire_def)
  have inv: "resolvedWith ?s1 \<noteq> None \<longrightarrow> \<not> listening ?s1"
    by (rule emit_all_deregisters) (simp add: init)
  have off: "\<not> listening (fire ?s1)"
    by (simp add: f)
  have res: "resolvedWith (fire ?s1) \<noteq> None"
    by (simp add: f split: option.splits)
  have fallback: "length (filter re_bound before) < 2 \<longrightarrow> resolvedWith (fire ?s1) = Some known"
  proof
    assume "length (filter re_bound before) < 2"
    with emit_all_pending [of ?s0 before] init
    have "resolvedWith ?s1 = None" "lastUpdate ?s1 = known" by simp_all
    then show "resolvedWith (fire ?s1) = Some known" by (simp add: f)
  qed
  have later: "emit_all after (fire ?s1) = fire ?s1"
    by (rule emit_idle) (rule off)
  from init(1-3) inv off res fallback later busy show ?thesis by blast
qed

lemmas tracker_defs =
  updateOnlinePlayers_def emit_all_def emit_def listener_def countBound_def readPlayerCount_def
  collectPlayers_def completeUpdate_def resolve_def truthy_string_def onTimeout_def fire_def Let_def
  line_bound_def line_rank_def line_players_def line_online_def nobody_online_def

theorem updateOnlinePlayers_timeout_race_witness:
  "resolvedWith (fire (emit_all [line_bound, line_rank ''Member'', line_players [''Alice'']]
       (updateOnlinePlayers False nobody_online))) = Some nobody_online
   \<and> \<not> listening (fire (emit_all [line_bound, line_rank ''Member'', line_players [''Alice'']]
       (updateOnlinePlayers False nobody_online)))
   \<and> resolvedWith (emit_all
        [line_bound, line_rank ''Member'', line_players [''Alice''], line_online 1, line_bound]
        (updateOnlinePlayers False nobody_online))
      = Some \<lparr>players = [(''Member'', [''Alice''])], onlineCount = 1, totalCount = 0\<rparr>
   \<and> \<not> listening (emit_all
        [line_bound, line_rank ''Member'', line_players [''Alice''], line_online 1, line_bound]
        (updateOnlinePlayers False nobody_online))"
proof -
  have few: "length (filter re_bound [line_bound, line_rank ''Member'', line_players [''Alice'']]) < 2"
    by (simp add: line_bound_def line_rank_def line_players_def)
  have fin: "resolvedWith (emit_all
        [line_bound, line_rank ''Member'', line_players [''Alice''], line_online 1, line_bound]
        (updateOnlinePlayers False nobody_online))
      = Some \<lparr>players = [(''Member'', [''Alice''])], onlineCount = 1, totalCount = 0\<rparr>"
    by (simp add: tracker_defs)
  show ?thesis
    using updateOnlinePlayers_timeout_race
        [of nobody_online "[line_bound, line_rank ''Member'', line_players [''Alice'']]"]
      updateOnlinePlayers_timeout_race
        [of nobody_online
          "[line_bound, line_rank ''Member'', line_players [''Alice''], line_online 1, line_bound]"]
      few fin
    by simp
qed

end
